theory Spec2Isabelle
  imports Main
begin

section \<open>Values of the source language\<close>

text \<open>
  Objects live in stores and are named by addresses. A thrown value is an
  \<^verbatim>\<open>Error\<close> object carrying its message (\<^verbatim>\<open>new Error("...")\<close>), a primitive string,
  \<^verbatim>\<open>null\<close> or \<^verbatim>\<open>undefined\<close>; a promise may be rejected with any of them.
  Under \<^verbatim>\<open>===\<close> an \<^verbatim>\<open>Error\<close> object is never equal to a string, whatever its message.
\<close>

type_synonym addr = nat

datatype thrown = JsError string | JsString string | JsNull | JsUndefined

text \<open>A \<^verbatim>\<open>string | undefined\<close> is a \<open>string option\<close>; the empty string and
  \<^verbatim>\<open>undefined\<close> are the falsy ones.\<close>

definition truthy :: "string option \<Rightarrow> bool" where
  "truthy v = (case v of None \<Rightarrow> False | Some s \<Rightarrow> s \<noteq> [])"

text \<open>\<^verbatim>\<open>a || b\<close> on strings.\<close>

definition js_or :: "string option \<Rightarrow> string option \<Rightarrow> string option" where
  "js_or a b = (if truthy a then a else b)"

text \<open>How a template literal or \<^verbatim>\<open>+\<close> renders a possibly undefined string.\<close>

definition js_str :: "string option \<Rightarrow> string" where
  "js_str v = (case v of None \<Rightarrow> ''undefined'' | Some s \<Rightarrow> s)"

section \<open>Data model\<close>

text \<open>
  The interfaces \<^verbatim>\<open>ISlackEvent\<close>, \<^verbatim>\<open>ISlackMessage\<close>, \<^verbatim>\<open>ISlackMessageEvent\<close> and
  \<^verbatim>\<open>ISlackFile\<close> are declared in \<^verbatim>\<open>BaseSlackHandler\<close>, which is not modelled; the
  record below has exactly the fields that \<^verbatim>\<open>SlackEventHandler.ts\<close> reads or writes,
  together with those of the three event interfaces it declares itself. The fields
  \<^verbatim>\<open>text\<close>, \<^verbatim>\<open>file\<close> and \<^verbatim>\<open>id\<close> are called \<open>msg_text\<close>, \<open>msg_file\<close> and \<open>event_id\<close>.
  Nested message objects (\<^verbatim>\<open>message\<close>, \<^verbatim>\<open>previous_message\<close>, \<^verbatim>\<open>item\<close>) are references
  into the store of message objects, so that a shallow copy shares them.
\<close>

record attachment =
  fallback :: "string option"

record slack_comment =
  comment_user :: "string option"

datatype slack_file = SlackFile string

datatype web_client = WebClient string

type_synonym buffer = "nat list"

record slack_event =
  type :: string
  channel :: "string option"
  user :: "string option"
  bot_id :: "string option"
  subtype :: "string option"
  msg_text :: "string option"
  attachments :: "attachment list option"
  message :: "addr option"
  previous_message :: "addr option"
  msg_file :: "slack_file option"
  comment :: "slack_comment option"
  deleted_ts :: "string option"
  item :: "addr option"
  reaction :: "string option"
  event_id :: "string option"
  name :: "string option"
  domain :: "string option"
  channel_id :: "string option"
  team_domain :: "string option"
  team_id :: "string option"
  user_id :: "string option"

text \<open>The properties of a \<^verbatim>\<open>BridgedRoom\<close> that the handler touches.\<close>

record room =
  SlackBotId :: "string option"
  SlackTeamDomain :: "string option"
  SlackTeamId :: "string option"
  SlackChannelId :: "string option"
  SlackChannelName :: "string option"
  SlackClient :: "web_client option"
  AccessToken :: "string option"
  isDirty :: bool

text \<open>What \<^verbatim>\<open>datastore.getEventBySlackId\<close> yields for a bridged message.\<close>

record event_entry =
  roomId :: string
  eventId :: string

datatype outcome = success | dropped | fail

definition HTTP_OK :: nat where
  "HTTP_OK = 200"

section \<open>Observable actions\<close>

text \<open>
  Every log line and every call on a collaborator is recorded, in order, with its
  arguments. Rooms are named by their address in the store of rooms.
  \<open>StartTimer\<close>, \<open>IncCounter\<close> and the two lookups of rooms are calls on \<^verbatim>\<open>main\<close>,
  \<open>EndTimer\<close> is the function that \<^verbatim>\<open>startTimer\<close> gave back, \<open>Respond\<close> is the callback
  passed to \<^verbatim>\<open>handle\<close>; \<open>GetEventBySlackId\<close> and \<open>UpsertRoom\<close> are calls on
  \<^verbatim>\<open>main.datastore\<close>, \<open>RedactEvent\<close> is \<^verbatim>\<open>redactEvent\<close> on the client of \<^verbatim>\<open>main.botIntent\<close>,
  the bridge's own bot; the four \<open>OnSlack\<close> actions are methods of the room, and the
  last three are the methods inherited from \<^verbatim>\<open>BaseSlackHandler\<close>.
\<close>

datatype action =
    LogDebug slack_event string
  | LogWarn string "thrown option"
  | LogError string "thrown option"
  | StartTimer string
  | EndTimer outcome
  | IncCounter string string
  | Respond nat "string option"
  | GetRoomBySlackChannelId "string option"
  | GetRoomsBySlackTeamId string
  | GetEventBySlackId "string option" "string option"
  | UpsertRoom addr
  | RedactEvent string string
  | OnSlackMessage addr slack_event string "buffer option"
  | OnSlackTopic addr slack_event string
  | OnSlackReactionAdded addr slack_event string
  | OnSlackTyping addr slack_event string
  | DoChannelUserReplacements slack_event "string option" "web_client option"
  | EnablePublicSharing slack_file "web_client option"
  | FetchFileContent slack_file

section \<open>Collaborators\<close>

text \<open>
  \<^verbatim>\<open>Main\<close>, \<^verbatim>\<open>BridgedRoom\<close>, the datastore and \<^verbatim>\<open>BaseSlackHandler\<close> are other
  modules, so what they do is a parameter: each call either returns a value
  (\<open>Inr\<close>) or throws (\<open>Inl\<close>), as a function of its arguments. The two property
  setters of \<^verbatim>\<open>BridgedRoom\<close> that the handler assigns through are parameters as
  well, since the setter decides what becomes of \<open>isDirty\<close>. Collaborators do not
  write to the two stores.
\<close>

record env =
  startTimer :: "string \<Rightarrow> thrown + unit"
  endTimer :: "outcome \<Rightarrow> thrown + unit"
  incCounter :: "string \<Rightarrow> string \<Rightarrow> thrown + unit"
  response :: "nat \<Rightarrow> string option \<Rightarrow> thrown + unit"
  getRoomBySlackChannelId :: "string option \<Rightarrow> thrown + addr option"
  getRoomsBySlackTeamId :: "string \<Rightarrow> thrown + addr list"
  getEventBySlackId :: "string option \<Rightarrow> string option \<Rightarrow> thrown + event_entry option"
  upsertRoom :: "addr \<Rightarrow> room \<Rightarrow> thrown + unit"
  redactEvent :: "string \<Rightarrow> string \<Rightarrow> thrown + unit"
  onSlackMessage :: "addr \<Rightarrow> slack_event \<Rightarrow> string \<Rightarrow> buffer option \<Rightarrow> thrown + unit"
  onSlackTopic :: "addr \<Rightarrow> slack_event \<Rightarrow> string \<Rightarrow> thrown + unit"
  onSlackReactionAdded :: "addr \<Rightarrow> slack_event \<Rightarrow> string \<Rightarrow> thrown + unit"
  onSlackTyping :: "addr \<Rightarrow> slack_event \<Rightarrow> string \<Rightarrow> thrown + unit"
  doChannelUserReplacements ::
    "slack_event \<Rightarrow> string option \<Rightarrow> web_client option \<Rightarrow> thrown + string option"
  enablePublicSharing :: "slack_file \<Rightarrow> web_client option \<Rightarrow> thrown + slack_file"
  fetchFileContent :: "slack_file \<Rightarrow> thrown + buffer"
  set_SlackTeamDomain :: "room \<Rightarrow> string option \<Rightarrow> room"
  set_SlackChannelName :: "room \<Rightarrow> string option \<Rightarrow> room"

section \<open>State and control\<close>

text \<open>
  The state is the trace of actions so far, the store of rooms and the store of
  message objects. A procedure maps a state to a result (a thrown value or a
  returned one) and the state it leaves; a throw keeps every effect made before it.
\<close>

record state =
  trace :: "action list"
  rooms :: "addr \<Rightarrow> room"
  heap :: "addr \<Rightarrow> slack_event"

type_synonym 'a proc = "state \<Rightarrow> (thrown + 'a) \<times> state"

definition ret :: "'a \<Rightarrow> 'a proc" where
  "ret x s = (Inr x, s)"

definition throw :: "thrown \<Rightarrow> 'a proc" where
  "throw e s = (Inl e, s)"

definition bnd :: "'a proc \<Rightarrow> ('a \<Rightarrow> 'b proc) \<Rightarrow> 'b proc" where
  "bnd m f s = (case m s of (Inl e, s') \<Rightarrow> (Inl e, s') | (Inr x, s') \<Rightarrow> f x s')"

definition try_catch :: "'a proc \<Rightarrow> (thrown \<Rightarrow> 'a proc) \<Rightarrow> 'a proc" where
  "try_catch m h s = (case m s of (Inl e, s') \<Rightarrow> h e s' | (Inr x, s') \<Rightarrow> (Inr x, s'))"

text \<open>A log line: recorded, never throws.\<close>

definition emit :: "action \<Rightarrow> unit proc" where
  "emit a s = (Inr (), s\<lparr>trace := trace s @ [a]\<rparr>)"

text \<open>A call on a collaborator: recorded, then it returns or throws.\<close>

definition call :: "action \<Rightarrow> thrown + 'a \<Rightarrow> 'a proc" where
  "call a r s = (r, s\<lparr>trace := trace s @ [a]\<rparr>)"

definition get_event :: "addr \<Rightarrow> slack_event proc" where
  "get_event a s = (Inr (heap s a), s)"

text \<open>An assignment to a property of a stored object, such as \<^verbatim>\<open>o.text = v\<close>.\<close>

definition update_event :: "addr \<Rightarrow> (slack_event \<Rightarrow> slack_event) \<Rightarrow> unit proc" where
  "update_event a g s = (Inr (), s\<lparr>heap := (heap s)(a := g (heap s a))\<rparr>)"

definition get_room :: "addr \<Rightarrow> room proc" where
  "get_room a s = (Inr (rooms s a), s)"

definition update_room :: "addr \<Rightarrow> (room \<Rightarrow> room) \<Rightarrow> unit proc" where
  "update_room a g s = (Inr (), s\<lparr>rooms := (rooms s)(a := g (rooms s a))\<rparr>)"

section \<open>The handlers of \<^verbatim>\<open>SlackEventHandler\<close>\<close>

text \<open>
  \<^verbatim>\<open>Object.assign({}, event, {channel_id: ..., team_domain: ..., team_id: ..., user_id: ...})\<close>,
  which three handlers share: a new object with the properties of the event, nested
  objects by reference, and four properties set. \<open>chan\<close> is the channel the handler
  looked up and \<open>r\<close> the room found.
\<close>

definition assign_ids :: "slack_event \<Rightarrow> string option \<Rightarrow> room \<Rightarrow> string \<Rightarrow> slack_event" where
  "assign_ids event chan r teamId =
    event\<lparr>channel_id := chan,
          team_domain := js_or (SlackTeamDomain r) (SlackTeamId r),
          team_id := Some teamId,
          user_id := js_or (user event) (bot_id event)\<rparr>"

subsection \<open>\<^verbatim>\<open>handleMessageEvent\<close>\<close>

text \<open>
  The body of \<^verbatim>\<open>handleMessageEvent\<close> is cut at its three comment blocks; each part
  ends by running the next one, so that a \<^verbatim>\<open>return\<close> is simply the end of a part.
  \<open>ev\<close> is the event object, \<open>msg\<close> the shallow copy being built.

  Lines 221 to 246: the second look at the client, the file share, the last
  replacement of users and channels, and the call of \<^verbatim>\<open>onSlackMessage\<close>. The one
  \<^verbatim>\<open>try\<close> block around the two file calls assigns \<^verbatim>\<open>msg.file\<close> between them, so it is
  written as two steps: the assignment stays when only the second call throws.
\<close>

definition message_forward ::
  "env \<Rightarrow> addr \<Rightarrow> string \<Rightarrow> addr \<Rightarrow> slack_event \<Rightarrow> unit proc" where
  "message_forward E room teamId ev msg =
    bnd (get_room room) (\<lambda>r.
    if SlackClient r = None then
      bnd (emit (LogWarn (''no slack token for '' @ js_str (SlackTeamDomain r)) None)) (\<lambda>_.
      bnd (get_event ev) (\<lambda>event.
      call (OnSlackMessage room event teamId None) (onSlackMessage E room event teamId None)))
    else
      bnd (case msg_file msg of
             Some f \<Rightarrow>
               if subtype msg = Some ''file_share'' then
                 bnd (try_catch
                        (bnd (call (EnablePublicSharing f (SlackClient r))
                                (enablePublicSharing E f (SlackClient r)))
                           (\<lambda>f'. ret (Some f')))
                        (\<lambda>_. ret None)) (\<lambda>shared.
                 case shared of
                   None \<Rightarrow> ret (msg, None)
                 | Some f' \<Rightarrow>
                     bnd (try_catch
                            (bnd (call (FetchFileContent f') (fetchFileContent E f'))
                               (\<lambda>c. ret (Some c)))
                            (\<lambda>_. ret None)) (\<lambda>content.
                     ret (msg\<lparr>msg_file := Some f'\<rparr>, content)))
               else ret (msg, None)
           | None \<Rightarrow> ret (msg, None)) (\<lambda>(msg1, content).
      bnd (call (DoChannelUserReplacements msg1 (msg_text msg1) (SlackClient r))
             (doChannelUserReplacements E msg1 (msg_text msg1) (SlackClient r))) (\<lambda>t.
      let msg2 = msg1\<lparr>msg_text := t\<rparr> in
      call (OnSlackMessage room msg2 teamId content)
        (onSlackMessage E room msg2 teamId content))))"

text \<open>
  Lines 189 to 219: the subtypes. In the \<^verbatim>\<open>message_changed\<close> branch the assignment
  to \<^verbatim>\<open>msg.previous_message.text\<close> goes through the reference that \<open>msg\<close> shares with
  the event, so it is a write to the store of message objects.
\<close>

definition message_subtypes ::
  "env \<Rightarrow> addr \<Rightarrow> string \<Rightarrow> addr \<Rightarrow> slack_event \<Rightarrow> unit proc" where
  "message_subtypes E room teamId ev msg =
    (if subtype msg = Some ''file_comment'' \<and> comment msg \<noteq> None then
       message_forward E room teamId ev
         (msg\<lparr>user_id := comment_user (the (comment msg))\<rparr>)
     else if subtype msg = Some ''message_changed'' \<and> message msg \<noteq> None
               \<and> previous_message msg \<noteq> None then
       bnd (get_event (the (message msg))) (\<lambda>m.
       let msg1 = msg\<lparr>user_id := user m, msg_text := msg_text m\<rparr> in
       bnd (get_event (the (previous_message msg1))) (\<lambda>p.
       bnd (get_room room) (\<lambda>r.
       bnd (call (DoChannelUserReplacements msg1 (msg_text p) (SlackClient r))
              (doChannelUserReplacements E msg1 (msg_text p) (SlackClient r))) (\<lambda>t.
       bnd (update_event (the (previous_message msg1)) (\<lambda>p'. p'\<lparr>msg_text := t\<rparr>)) (\<lambda>_.
       bnd (get_event (the (message msg1))) (\<lambda>m'.
       bnd (get_room room) (\<lambda>r'.
       if bot_id m' \<noteq> None then
         if bot_id m' = SlackBotId r' then ret ()
         else message_forward E room teamId ev (msg1\<lparr>user_id := bot_id msg1\<rparr>)
       else message_forward E room teamId ev msg1)))))))
     else if subtype msg = Some ''message_deleted'' then
       bnd (call (GetEventBySlackId (channel msg) (deleted_ts msg))
              (getEventBySlackId E (channel msg) (deleted_ts msg))) (\<lambda>originalEvent.
       case originalEvent of
         Some oe \<Rightarrow>
           call (RedactEvent (roomId oe) (eventId oe)) (redactEvent E (roomId oe) (eventId oe))
       | None \<Rightarrow> message_forward E room teamId ev msg)
     else if subtype msg = Some ''message_replied'' then ret ()
     else message_forward E room teamId ev msg)"

text \<open>
  Lines 176 to 187: the attachments. The loop returns in its first round, so only
  an empty array gets past it, and then the test for an empty text is reached.
\<close>

definition message_attachments ::
  "env \<Rightarrow> addr \<Rightarrow> string \<Rightarrow> addr \<Rightarrow> slack_event \<Rightarrow> unit proc" where
  "message_attachments E room teamId ev msg =
    (case attachments msg of
       Some (attachment # _) \<Rightarrow>
         let msg1 = msg\<lparr>msg_text := fallback attachment\<rparr> in
         bnd (get_room room) (\<lambda>r.
         bnd (call (DoChannelUserReplacements msg1 (msg_text msg1) (SlackClient r))
                (doChannelUserReplacements E msg1 (msg_text msg1) (SlackClient r))) (\<lambda>t.
         let msg2 = msg1\<lparr>msg_text := t\<rparr> in
         call (OnSlackMessage room msg2 teamId None) (onSlackMessage E room msg2 teamId None)))
     | Some [] \<Rightarrow>
         if msg_text msg = Some [] then ret ()
         else message_subtypes E room teamId ev msg
     | None \<Rightarrow> message_subtypes E room teamId ev msg)"

text \<open>Lines 137 to 174, and from there the parts above. \<open>ev\<close> is the event object.\<close>

definition handleMessageEvent :: "env \<Rightarrow> addr \<Rightarrow> string \<Rightarrow> unit proc" where
  "handleMessageEvent E ev teamId =
    bnd (get_event ev) (\<lambda>event.
    bnd (call (GetRoomBySlackChannelId (channel event))
           (getRoomBySlackChannelId E (channel event))) (\<lambda>found.
    case found of
      None \<Rightarrow> throw (JsError ''unknown_channel'')
    | Some room \<Rightarrow>
        bnd (get_room room) (\<lambda>r.
        if subtype event = Some ''bot_message''
           \<and> (\<not> truthy (SlackBotId r) \<or> bot_id event = SlackBotId r)
        then ret ()
        else
          bnd (call (IncCounter ''received_messages'' ''remote'')
                 (incCounter E ''received_messages'' ''remote'')) (\<lambda>_.
          let msg = assign_ids event (channel event) r teamId in
          bnd (get_room room) (\<lambda>r1.
          if SlackClient r1 = None then
            bnd (emit (LogWarn (''no slack token for '' @ js_str (SlackTeamDomain r1)) None))
              (\<lambda>_.
            call (OnSlackMessage room msg teamId None) (onSlackMessage E room msg teamId None))
          else if subtype msg = Some ''channel_topic'' \<or> subtype msg = Some ''group_topic''
          then call (OnSlackTopic room msg teamId) (onSlackTopic E room msg teamId)
          else message_attachments E room teamId ev msg)))))"

subsection \<open>The other handlers\<close>

text \<open>
  \<^verbatim>\<open>event.item.channel\<close> on an event without \<^verbatim>\<open>item\<close> is a \<^verbatim>\<open>TypeError\<close>; its message is
  the engine's own and is not modelled.
\<close>

definition handleReaction :: "env \<Rightarrow> addr \<Rightarrow> string \<Rightarrow> unit proc" where
  "handleReaction E ev teamId =
    bnd (get_event ev) (\<lambda>event.
    case item event of
      None \<Rightarrow> throw (JsError ''TypeError'')
    | Some i \<Rightarrow>
        bnd (get_event i) (\<lambda>target.
        let chan = channel target in
        bnd (call (GetRoomBySlackChannelId chan) (getRoomBySlackChannelId E chan)) (\<lambda>found.
        case found of
          None \<Rightarrow> throw (JsError ''unknown_channel'')
        | Some room \<Rightarrow>
            bnd (get_room room) (\<lambda>r.
            let msg = assign_ids event chan r teamId in
            if type event = ''reaction_added''
            then call (OnSlackReactionAdded room msg teamId)
                   (onSlackReactionAdded E room msg teamId)
            else ret ()))))"

text \<open>
  \<^verbatim>\<open>Promise.all\<close> over \<^verbatim>\<open>map(async ...)\<close>: every callback is started, in the order of the
  list, whatever the earlier ones do; the whole is rejected with the first
  rejection, taken here in the order of the list.
\<close>

fun promise_all_map :: "(addr \<Rightarrow> unit proc) \<Rightarrow> addr list \<Rightarrow> unit proc" where
  "promise_all_map f [] = ret ()"
| "promise_all_map f (x # xs) =
     bnd (try_catch (bnd (f x) (\<lambda>_. ret None)) (\<lambda>e. ret (Some e))) (\<lambda>rejected.
     bnd (try_catch (bnd (promise_all_map f xs) (\<lambda>_. ret None)) (\<lambda>e. ret (Some e)))
       (\<lambda>rejected'.
     case rejected of
       Some e \<Rightarrow> throw e
     | None \<Rightarrow> (case rejected' of Some e' \<Rightarrow> throw e' | None \<Rightarrow> ret ())))"

definition domain_change_room :: "env \<Rightarrow> slack_event \<Rightarrow> addr \<Rightarrow> unit proc" where
  "domain_change_room E event room =
    bnd (update_room room (\<lambda>r. set_SlackTeamDomain E r (domain event))) (\<lambda>_.
    bnd (get_room room) (\<lambda>r'.
    if isDirty r' then call (UpsertRoom room) (upsertRoom E room r') else ret ()))"

definition handleDomainChangeEvent :: "env \<Rightarrow> addr \<Rightarrow> string \<Rightarrow> unit proc" where
  "handleDomainChangeEvent E ev teamId =
    bnd (get_event ev) (\<lambda>event.
    bnd (call (GetRoomsBySlackTeamId teamId) (getRoomsBySlackTeamId E teamId)) (\<lambda>found.
    promise_all_map (domain_change_room E event) found))"

definition handleChannelRenameEvent :: "env \<Rightarrow> addr \<Rightarrow> unit proc" where
  "handleChannelRenameEvent E ev =
    bnd (get_event ev) (\<lambda>event.
    bnd (call (GetRoomBySlackChannelId (event_id event))
           (getRoomBySlackChannelId E (event_id event))) (\<lambda>found.
    case found of
      None \<Rightarrow> throw (JsError ''unknown_channel'')
    | Some room \<Rightarrow>
        bnd (get_room room) (\<lambda>r.
        let channelName = js_str (SlackTeamDomain r) @ ''.#'' @ js_str (name event) in
        bnd (update_room room (\<lambda>r. set_SlackChannelName E r (Some channelName))) (\<lambda>_.
        bnd (get_room room) (\<lambda>r'.
        if isDirty r' then call (UpsertRoom room) (upsertRoom E room r') else ret ())))))"

definition handleTyping :: "env \<Rightarrow> addr \<Rightarrow> string \<Rightarrow> unit proc" where
  "handleTyping E ev teamId =
    bnd (get_event ev) (\<lambda>event.
    bnd (call (GetRoomBySlackChannelId (channel event))
           (getRoomBySlackChannelId E (channel event))) (\<lambda>found.
    case found of
      None \<Rightarrow> throw (JsError ''unknown_channel'')
    | Some room \<Rightarrow>
        bnd (get_room room) (\<lambda>r.
        let typingEvent = assign_ids event (channel event) r teamId in
        call (OnSlackTyping room typingEvent teamId) (onSlackTyping E room typingEvent teamId))))"

subsection \<open>\<^verbatim>\<open>handle\<close>\<close>

text \<open>The \<^verbatim>\<open>switch\<close> on \<^verbatim>\<open>event.type\<close>; its value is what \<^verbatim>\<open>err\<close> holds afterwards.\<close>

definition dispatch :: "env \<Rightarrow> addr \<Rightarrow> string \<Rightarrow> thrown option proc" where
  "dispatch E ev teamId =
    bnd (get_event ev) (\<lambda>event.
    if type event = ''message'' then
      bnd (handleMessageEvent E ev teamId) (\<lambda>_. ret None)
    else if type event = ''reaction_added'' \<or> type event = ''reaction_removed'' then
      bnd (handleReaction E ev teamId) (\<lambda>_. ret None)
    else if type event = ''channel_rename'' then
      bnd (handleChannelRenameEvent E ev) (\<lambda>_. ret None)
    else if type event = ''team_domain_change'' then
      bnd (handleDomainChangeEvent E ev teamId) (\<lambda>_. ret None)
    else if type event = ''user_typing'' then
      bnd (handleTyping E ev teamId) (\<lambda>_. ret None)
    else ret (Some (JsString ''unknown_event'')))"

text \<open>
  Lines 108 to 124 of \<^verbatim>\<open>handle\<close>: the recording of the outcome, from what \<^verbatim>\<open>err\<close> holds.
  The tests are \<^verbatim>\<open>===\<close> against a string, so they hold for that string only.
\<close>

definition record_outcome :: "env \<Rightarrow> addr \<Rightarrow> string \<Rightarrow> thrown option \<Rightarrow> unit proc" where
  "record_outcome E ev teamId err =
    (if err = Some (JsString ''unknown_channel'') then
      bnd (get_event ev) (\<lambda>event.
      let chanIdMix = js_str (channel event) @ '' ('' @ teamId @ '')'' in
      bnd (emit (LogWarn (''Ignoring message from unrecognised slack channel id: '' @ chanIdMix)
                   None)) (\<lambda>_.
      bnd (call (IncCounter ''received_messages'' ''remote'')
             (incCounter E ''received_messages'' ''remote'')) (\<lambda>_.
      call (EndTimer dropped) (endTimer E dropped))))
    else
      bnd (if err = Some (JsString ''unknown_event'') then
             call (EndTimer dropped) (endTimer E dropped)
           else if err \<noteq> None then call (EndTimer fail) (endTimer E fail)
           else ret ()) (\<lambda>_.
      if err = None then call (EndTimer success) (endTimer E success)
      else emit (LogError ''Failed to handle slack event:'' err)))"

text \<open>
  \<^verbatim>\<open>err = ex\<close>: \<^verbatim>\<open>err\<close> holds what was thrown, as it was thrown. \<^verbatim>\<open>err\<close> starts as
  \<^verbatim>\<open>null\<close>, which is \<open>None\<close> here, so a thrown \<^verbatim>\<open>null\<close> leaves it as it started.
\<close>

definition caught_err :: "thrown \<Rightarrow> thrown option" where
  "caught_err ex = (if ex = JsNull then None else Some ex)"

text \<open>
  Lines 79 to 124: the inner \<^verbatim>\<open>try\<close> around the \<^verbatim>\<open>switch\<close>, its \<^verbatim>\<open>catch\<close>, and then the
  recording of the outcome.
\<close>

definition handle_classify :: "env \<Rightarrow> addr \<Rightarrow> string \<Rightarrow> unit proc" where
  "handle_classify E ev teamId =
    bnd (try_catch (dispatch E ev teamId)
           (\<lambda>ex. bnd (emit (LogWarn ''Didn't handle event:'' (Some ex)))
                   (\<lambda>_. ret (caught_err ex))))
      (record_outcome E ev teamId)"

text \<open>Lines 72 to 77: the debug line, the timer and the response; then the above.\<close>

definition handle_try :: "env \<Rightarrow> addr \<Rightarrow> string \<Rightarrow> unit proc" where
  "handle_try E ev teamId =
    bnd (get_event ev) (\<lambda>event.
    bnd (emit (LogDebug event teamId)) (\<lambda>_.
    bnd (call (StartTimer ''remote_request_seconds'') (startTimer E ''remote_request_seconds''))
      (\<lambda>_.
    bnd (call (Respond HTTP_OK (Some ''OK'')) (response E HTTP_OK (Some ''OK''))) (\<lambda>_.
    handle_classify E ev teamId))))"

text \<open>\<^verbatim>\<open>handle\<close>: the outer \<^verbatim>\<open>try\<close> and its \<^verbatim>\<open>catch\<close>.\<close>

definition handle :: "env \<Rightarrow> addr \<Rightarrow> string \<Rightarrow> unit proc" where
  "handle E ev teamId =
    try_catch (handle_try E ev teamId)
      (\<lambda>e. emit (LogError ''SlackEventHandler.handle failed:'' (Some e)))"

section \<open>Reading traces and stores\<close>

text \<open>What the \<^verbatim>\<open>catch\<close> of \<^verbatim>\<open>handle\<close> adds to the trace when a call ends in a throw.\<close>

definition caught_by_handle :: "thrown + 'a \<Rightarrow> action list" where
  "caught_by_handle r =
    (case r of Inl e \<Rightarrow> [LogError ''SlackEventHandler.handle failed:'' (Some e)] | Inr _ \<Rightarrow> [])"

fun is_respond :: "action \<Rightarrow> bool" where
  "is_respond (Respond _ _) = True"
| "is_respond _ = False"

text \<open>The calls that hand a record to the room: message, topic, reaction, typing.\<close>

fun is_forward :: "action \<Rightarrow> bool" where
  "is_forward (OnSlackMessage _ _ _ _) = True"
| "is_forward (OnSlackTopic _ _ _) = True"
| "is_forward (OnSlackReactionAdded _ _ _) = True"
| "is_forward (OnSlackTyping _ _ _) = True"
| "is_forward _ = False"

text \<open>
  A relation between the state before and the state after is kept by a procedure
  when it holds for every run. It can be chained when it is reflexive and
  transitive; the other three predicates say that it allows one more action in the
  trace, a new text in one stored message, and a change to a room.
\<close>

definition preserves :: "(state \<Rightarrow> state \<Rightarrow> bool) \<Rightarrow> 'a proc \<Rightarrow> bool" where
  "preserves R m \<longleftrightarrow> (\<forall>s. R s (snd (m s)))"

definition stepping :: "(state \<Rightarrow> state \<Rightarrow> bool) \<Rightarrow> bool" where
  "stepping R \<longleftrightarrow> (\<forall>s. R s s) \<and> (\<forall>s t u. R s t \<longrightarrow> R t u \<longrightarrow> R s u)"

definition records :: "(state \<Rightarrow> state \<Rightarrow> bool) \<Rightarrow> action \<Rightarrow> bool" where
  "records R a \<longleftrightarrow> (\<forall>s. R s (s\<lparr>trace := trace s @ [a]\<rparr>))"

definition retexts :: "(state \<Rightarrow> state \<Rightarrow> bool) \<Rightarrow> addr \<Rightarrow> bool" where
  "retexts R a \<longleftrightarrow> (\<forall>s t. R s (s\<lparr>heap := (heap s)(a := (heap s a)\<lparr>msg_text := t\<rparr>)\<rparr>))"

definition rerooms :: "(state \<Rightarrow> state \<Rightarrow> bool) \<Rightarrow> bool" where
  "rerooms R \<longleftrightarrow> (\<forall>s a g. R s (s\<lparr>rooms := (rooms s)(a := g (rooms s a))\<rparr>))"

text \<open>The trace grows, by actions that satisfy \<open>P\<close>.\<close>

definition appends_only :: "(action \<Rightarrow> bool) \<Rightarrow> state \<Rightarrow> state \<Rightarrow> bool" where
  "appends_only P s s' \<longleftrightarrow> (\<exists>xs. trace s' = trace s @ xs \<and> list_all P xs)"

text \<open>
  Every stored message object is as before, except that the one at \<open>po\<close>, if any,
  may have a new text.
\<close>

definition text_frame :: "addr option \<Rightarrow> state \<Rightarrow> state \<Rightarrow> bool" where
  "text_frame po s s' \<longleftrightarrow>
    (\<forall>a. heap s' a = heap s a \<or> (po = Some a \<and> (\<exists>t. heap s' a = (heap s a)\<lparr>msg_text := t\<rparr>)))"

text \<open>The snapshot that the \<^verbatim>\<open>message_changed\<close> branch can reach from an event.\<close>

definition edited_snapshot :: "slack_event \<Rightarrow> addr option" where
  "edited_snapshot e =
    (if type e = ''message'' \<and> subtype e = Some ''message_changed'' \<and> message e \<noteq> None
     then previous_message e else None)"

section \<open>Example configurations\<close>

text \<open>
  An event and a room with nothing set, a state that holds only these, and
  collaborators that always return: no room is registered, no message was bridged,
  texts come back from the replacement of users and channels as they went in, and
  the setters of a room mark it dirty when the value changes.
\<close>

definition blank_event :: slack_event where
  "blank_event =
    \<lparr>type = ''message'', channel = None, user = None, bot_id = None, subtype = None,
     msg_text = None, attachments = None, message = None, previous_message = None,
     msg_file = None, comment = None, deleted_ts = None, item = None, reaction = None,
     event_id = None, name = None, domain = None, channel_id = None, team_domain = None,
     team_id = None, user_id = None\<rparr>"

definition blank_room :: room where
  "blank_room =
    \<lparr>SlackBotId = None, SlackTeamDomain = None, SlackTeamId = None, SlackChannelId = None,
     SlackChannelName = None, SlackClient = None, AccessToken = None, isDirty = False\<rparr>"

definition blank_state :: state where
  "blank_state = \<lparr>trace = [], rooms = (\<lambda>_. blank_room), heap = (\<lambda>_. blank_event)\<rparr>"

definition quiet_env :: env where
  "quiet_env =
    \<lparr>startTimer = (\<lambda>_. Inr ()), endTimer = (\<lambda>_. Inr ()), incCounter = (\<lambda>_ _. Inr ()),
     response = (\<lambda>_ _. Inr ()), getRoomBySlackChannelId = (\<lambda>_. Inr None),
     getRoomsBySlackTeamId = (\<lambda>_. Inr []), getEventBySlackId = (\<lambda>_ _. Inr None),
     upsertRoom = (\<lambda>_ _. Inr ()), redactEvent = (\<lambda>_ _. Inr ()),
     onSlackMessage = (\<lambda>_ _ _ _. Inr ()), onSlackTopic = (\<lambda>_ _ _. Inr ()),
     onSlackReactionAdded = (\<lambda>_ _ _. Inr ()), onSlackTyping = (\<lambda>_ _ _. Inr ()),
     doChannelUserReplacements = (\<lambda>_ t _. Inr t), enablePublicSharing = (\<lambda>f _. Inr f),
     fetchFileContent = (\<lambda>_. Inr []),
     set_SlackTeamDomain =
       (\<lambda>r d. if SlackTeamDomain r = d then r else r\<lparr>SlackTeamDomain := d, isDirty := True\<rparr>),
     set_SlackChannelName =
       (\<lambda>r n. if SlackChannelName r = n then r else r\<lparr>SlackChannelName := n, isDirty := True\<rparr>)\<rparr>"

text \<open>Channel \<^verbatim>\<open>C1\<close> is bridged by the room at address 0.\<close>

definition one_room_env :: env where
  "one_room_env =
    quiet_env\<lparr>getRoomBySlackChannelId := (\<lambda>c. Inr (if c = Some ''C1'' then Some 0 else None))\<rparr>"

text \<open>A room with a client, whose own bot is \<^verbatim>\<open>B1\<close>.\<close>

definition client_room :: room where
  "client_room =
    blank_room\<lparr>SlackBotId := Some ''B1'', SlackTeamId := Some ''T1'',
               SlackClient := Some (WebClient ''xoxp'')\<rparr>"

text \<open>
  Team \<^verbatim>\<open>T1\<close> has the rooms at addresses 1, 2 and 3; the first two still carry the
  old domain, the third has the new one already.
\<close>

definition three_room_env :: env where
  "three_room_env =
    quiet_env\<lparr>getRoomsBySlackTeamId := (\<lambda>t. Inr (if t = ''T1'' then [1, 2, 3] else []))\<rparr>"

definition three_room_state :: state where
  "three_room_state =
    blank_state\<lparr>rooms := (\<lambda>a. if a = 3 then blank_room\<lparr>SlackTeamDomain := Some ''new''\<rparr>
                             else blank_room\<lparr>SlackTeamDomain := Some ''old''\<rparr>),
                heap := (\<lambda>_. blank_event\<lparr>type := ''team_domain_change'',
                                          domain := Some ''new''\<rparr>)\<rparr>"

text \<open>A state where every room is the room with a client and every object is \<open>e\<close>.\<close>

definition client_state :: "slack_event \<Rightarrow> state" where
  "client_state e = blank_state\<lparr>rooms := (\<lambda>_. client_room), heap := (\<lambda>_. e)\<rparr>"

text \<open>A deleted message, and a datastore that knows the message it deletes.\<close>

definition deleted_event :: slack_event where
  "deleted_event =
    blank_event\<lparr>channel := Some ''C1'', user := Some ''U1'', subtype := Some ''message_deleted'',
                deleted_ts := Some ''1700000000.000100''\<rparr>"

definition bridged_env :: env where
  "bridged_env =
    one_room_env\<lparr>getEventBySlackId :=
      (\<lambda>c ts. Inr (if c = Some ''C1'' \<and> ts = Some ''1700000000.000100''
                    then Some \<lparr>roomId = ''!room:hs'', eventId = ''$event''\<rparr> else None))\<rparr>"

text \<open>
  An edit: the event at address 0, the edited message \<open>m\<close> at address 1, the
  previous message at address 2. The edit is made by the bridge's bot or by a user.
\<close>

definition edit_event :: slack_event where
  "edit_event =
    blank_event\<lparr>channel := Some ''C1'', subtype := Some ''message_changed'',
                message := Some 1, previous_message := Some 2\<rparr>"

definition edit_state :: "slack_event \<Rightarrow> state" where
  "edit_state m =
    blank_state\<lparr>rooms := (\<lambda>_. client_room),
                heap := (\<lambda>_. blank_event)
                  (0 := edit_event, 1 := m,
                   2 := blank_event\<lparr>user := Some ''U1'', msg_text := Some ''Hello <@U2>''\<rparr>)\<rparr>"

definition bot_edit :: slack_event where
  "bot_edit = blank_event\<lparr>bot_id := Some ''B1'', msg_text := Some ''edited by the bridge''\<rparr>"

definition other_bot_edit :: slack_event where
  "other_bot_edit =
    blank_event\<lparr>user := Some ''U9'', bot_id := Some ''B2'', msg_text := Some ''edited by a bot''\<rparr>"

definition user_edit :: slack_event where
  "user_edit = blank_event\<lparr>user := Some ''U1'', msg_text := Some ''Hello again <@U2>''\<rparr>"

text \<open>The same rooms without a client.\<close>

definition without_client :: "state \<Rightarrow> state" where
  "without_client s = s\<lparr>rooms := (\<lambda>_. blank_room\<lparr>SlackBotId := Some ''B1''\<rparr>)\<rparr>"

text \<open>A replacement of users and channels that knows one user.\<close>

definition resolving_env :: env where
  "resolving_env =
    one_room_env\<lparr>doChannelUserReplacements :=
      (\<lambda>_ t _. Inr (if t = Some ''Hello <@U2>'' then Some ''Hello Bob'' else t))\<rparr>"

text \<open>An edit event that carries neither of the two messages.\<close>

definition half_edit_event :: slack_event where
  "half_edit_event =
    blank_event\<lparr>channel := Some ''C1'', user := Some ''U1'', subtype := Some ''message_changed'',
                msg_text := Some ''original''\<rparr>"

text \<open>A message of another bot whose one attachment has the empty string as fallback.\<close>

definition empty_fallback_event :: slack_event where
  "empty_fallback_event =
    blank_event\<lparr>channel := Some ''C1'', subtype := Some ''bot_message'', bot_id := Some ''B2'',
                attachments := Some [\<lparr>fallback = Some []\<rparr>]\<rparr>"

text \<open>A message of the bot \<open>b\<close> with two attachments.\<close>

definition build_event :: "string \<Rightarrow> slack_event" where
  "build_event b =
    blank_event\<lparr>channel := Some ''C1'', subtype := Some ''bot_message'', bot_id := Some b,
                attachments := Some [\<lparr>fallback = Some ''build passed''\<rparr>,
                                     \<lparr>fallback = Some ''details''\<rparr>]\<rparr>"

section \<open>Chaining relations through the handlers\<close>

lemmas proc_defs = ret_def throw_def bnd_def try_catch_def emit_def call_def get_event_def
  update_event_def get_room_def update_room_def

lemma assign_ids_fields [simp]:
  "type (assign_ids e c r t) = type e"
  "channel (assign_ids e c r t) = channel e"
  "user (assign_ids e c r t) = user e"
  "bot_id (assign_ids e c r t) = bot_id e"
  "subtype (assign_ids e c r t) = subtype e"
  "msg_text (assign_ids e c r t) = msg_text e"
  "attachments (assign_ids e c r t) = attachments e"
  "message (assign_ids e c r t) = message e"
  "previous_message (assign_ids e c r t) = previous_message e"
  "msg_file (assign_ids e c r t) = msg_file e"
  "comment (assign_ids e c r t) = comment e"
  "deleted_ts (assign_ids e c r t) = deleted_ts e"
  by (simp_all add: assign_ids_def)

lemma preservesD: "preserves R m \<Longrightarrow> R s (snd (m s))"
  by (simp add: preserves_def)

lemma preserves_ret: "stepping R \<Longrightarrow> preserves R (ret x)"
  by (simp add: preserves_def stepping_def ret_def)

lemma preserves_throw: "stepping R \<Longrightarrow> preserves R (throw e)"
  by (simp add: preserves_def stepping_def throw_def)

lemma preserves_get_event: "stepping R \<Longrightarrow> preserves R (get_event a)"
  by (simp add: preserves_def stepping_def get_event_def)

lemma preserves_get_room: "stepping R \<Longrightarrow> preserves R (get_room a)"
  by (simp add: preserves_def stepping_def get_room_def)

lemma preserves_emit: "records R a \<Longrightarrow> preserves R (emit a)"
  by (simp add: preserves_def records_def emit_def)

lemma preserves_call: "records R a \<Longrightarrow> preserves R (call a r)"
  by (simp add: preserves_def records_def call_def)

lemma bnd_at:
  assumes "stepping R" and "R s (snd (m s))" and "\<And>x. preserves R (f x)"
  shows "R s (snd (bnd m f s))"
proof (cases "m s")
  case (Pair r s')
  have 1: "R s s'" using assms(2) Pair by simp
  show ?thesis
  proof (cases r)
    case (Inl e)
    then show ?thesis using Pair 1 by (simp add: bnd_def)
  next
    case (Inr x)
    have "R s' (snd (f x s'))" using assms(3) by (simp add: preserves_def)
    then show ?thesis using Pair Inr 1 assms(1) unfolding stepping_def bnd_def by auto
  qed
qed

lemma try_catch_at:
  assumes "stepping R" and "R s (snd (m s))" and "\<And>e. preserves R (h e)"
  shows "R s (snd (try_catch m h s))"
proof (cases "m s")
  case (Pair r s')
  have 1: "R s s'" using assms(2) Pair by simp
  show ?thesis
  proof (cases r)
    case (Inr x)
    then show ?thesis using Pair 1 by (simp add: try_catch_def)
  next
    case (Inl e)
    have "R s' (snd (h e s'))" using assms(3) by (simp add: preserves_def)
    then show ?thesis using Pair Inl 1 assms(1) unfolding stepping_def try_catch_def by auto
  qed
qed

lemma bnd_get_event: "bnd (get_event a) f s = f (heap s a) s"
  by (simp add: bnd_def get_event_def)

lemma preserves_bnd:
  assumes "stepping R" and "preserves R m" and "\<And>x. preserves R (f x)"
  shows "preserves R (bnd m f)"
proof -
  have "R s (snd (bnd m f s))" for s
  proof (cases "m s")
    case (Pair r s')
    have 1: "R s s'" using assms(2) Pair by (metis preserves_def snd_conv)
    show ?thesis
    proof (cases r)
      case (Inl e)
      then show ?thesis using Pair 1 by (simp add: bnd_def)
    next
      case (Inr x)
      have "R s' (snd (f x s'))" using assms(3) by (simp add: preserves_def)
      then show ?thesis using Pair Inr 1 assms(1) unfolding stepping_def bnd_def by auto
    qed
  qed
  then show ?thesis by (simp add: preserves_def)
qed

lemma preserves_try_catch:
  assumes "stepping R" and "preserves R m" and "\<And>e. preserves R (h e)"
  shows "preserves R (try_catch m h)"
proof -
  have "R s (snd (try_catch m h s))" for s
  proof (cases "m s")
    case (Pair r s')
    have 1: "R s s'" using assms(2) Pair by (metis preserves_def snd_conv)
    show ?thesis
    proof (cases r)
      case (Inr x)
      then show ?thesis using Pair 1 by (simp add: try_catch_def)
    next
      case (Inl e)
      have "R s' (snd (h e s'))" using assms(3) by (simp add: preserves_def)
      then show ?thesis using Pair Inl 1 assms(1) unfolding stepping_def try_catch_def by auto
    qed
  qed
  then show ?thesis by (simp add: preserves_def)
qed

lemma preserves_if:
  "(c \<Longrightarrow> preserves R a) \<Longrightarrow> (\<not> c \<Longrightarrow> preserves R b) \<Longrightarrow> preserves R (if c then a else b)"
  by simp

lemma preserves_case_option:
  "(x = None \<Longrightarrow> preserves R a) \<Longrightarrow> (\<And>y. x = Some y \<Longrightarrow> preserves R (f y))
    \<Longrightarrow> preserves R (case x of None \<Rightarrow> a | Some y \<Rightarrow> f y)"
  by (cases x) simp_all

lemma preserves_case_list:
  "(xs = [] \<Longrightarrow> preserves R a) \<Longrightarrow> (\<And>y ys. xs = y # ys \<Longrightarrow> preserves R (f y ys))
    \<Longrightarrow> preserves R (case xs of [] \<Rightarrow> a | y # ys \<Rightarrow> f y ys)"
  by (cases xs) simp_all

lemma preserves_case_prod:
  "(\<And>a b. x = (a, b) \<Longrightarrow> preserves R (f a b)) \<Longrightarrow> preserves R (case x of (a, b) \<Rightarrow> f a b)"
  by (cases x) simp_all

lemma preserves_Let: "preserves R (f x) \<Longrightarrow> preserves R (Let x f)"
  by simp

lemmas preserves_intros =
  preserves_ret preserves_throw preserves_get_event preserves_get_room preserves_emit
  preserves_call preserves_bnd preserves_try_catch preserves_if preserves_case_option
  preserves_case_list preserves_case_prod preserves_Let

lemma message_forward_preserves:
  assumes "stepping R" and "\<And>a. \<not> is_respond a \<Longrightarrow> records R a"
  shows "preserves R (message_forward E room teamId ev msg)"
  unfolding message_forward_def
  by (intro preserves_intros assms) simp_all


lemma preserves_update_text:
  "retexts R a \<Longrightarrow> preserves R (update_event a (\<lambda>p. p\<lparr>msg_text := t\<rparr>))"
  by (simp add: preserves_def retexts_def update_event_def)

lemma preserves_update_room: "rerooms R \<Longrightarrow> preserves R (update_room a g)"
  by (simp add: preserves_def rerooms_def update_room_def)

lemma message_subtypes_preserves:
  assumes "stepping R" and "\<And>a. \<not> is_respond a \<Longrightarrow> records R a"
    and "\<And>a. subtype msg = Some ''message_changed'' \<Longrightarrow> message msg \<noteq> None \<Longrightarrow>
           previous_message msg = Some a \<Longrightarrow> retexts R a"
  shows "preserves R (message_subtypes E room teamId ev msg)"
  unfolding message_subtypes_def
  by (intro preserves_intros preserves_update_text message_forward_preserves assms) auto

lemma message_attachments_preserves:
  assumes "stepping R" and "\<And>a. \<not> is_respond a \<Longrightarrow> records R a"
    and "\<And>a. subtype msg = Some ''message_changed'' \<Longrightarrow> message msg \<noteq> None \<Longrightarrow>
           previous_message msg = Some a \<Longrightarrow> retexts R a"
  shows "preserves R (message_attachments E room teamId ev msg)"
  unfolding message_attachments_def
  by (intro preserves_intros message_subtypes_preserves assms) auto



lemma call_at: "records R a \<Longrightarrow> R s (snd (call a r s))"
  by (simp add: records_def call_def)

lemma handleMessageEvent_at:
  assumes "stepping R" and "\<And>a. \<not> is_respond a \<Longrightarrow> records R a"
    and "\<And>a. subtype (heap s ev) = Some ''message_changed'' \<Longrightarrow> message (heap s ev) \<noteq> None \<Longrightarrow>
           previous_message (heap s ev) = Some a \<Longrightarrow> retexts R a"
  shows "R s (snd (handleMessageEvent E ev teamId s))"
  unfolding handleMessageEvent_def bnd_get_event
  apply (rule bnd_at)
    apply (rule assms)
   apply (rule call_at)
   apply (simp add: assms)
  apply (intro preserves_intros message_attachments_preserves assms)
               apply (simp_all add: assms)
  done


lemma handleReaction_preserves:
  assumes "stepping R" and "\<And>a. \<not> is_respond a \<Longrightarrow> records R a"
  shows "preserves R (handleReaction E ev teamId)"
  unfolding handleReaction_def
  by (intro preserves_intros assms) simp_all

lemma handleTyping_preserves:
  assumes "stepping R" and "\<And>a. \<not> is_respond a \<Longrightarrow> records R a"
  shows "preserves R (handleTyping E ev teamId)"
  unfolding handleTyping_def
  by (intro preserves_intros assms) simp_all

lemma handleChannelRenameEvent_preserves:
  assumes "stepping R" and "\<And>a. \<not> is_respond a \<Longrightarrow> records R a" and "rerooms R"
  shows "preserves R (handleChannelRenameEvent E ev)"
  unfolding handleChannelRenameEvent_def
  by (intro preserves_intros preserves_update_room assms) simp_all

lemma promise_all_map_preserves:
  assumes "stepping R" and "\<And>x. preserves R (f x)"
  shows "preserves R (promise_all_map f xs)"
proof (induction xs)
  case Nil
  show ?case using assms(1) by (simp add: preserves_ret)
next
  case (Cons x xs)
  show ?case
    unfolding promise_all_map.simps
    by (intro preserves_intros assms Cons)
qed

lemma handleDomainChangeEvent_preserves:
  assumes "stepping R" and "\<And>a. \<not> is_respond a \<Longrightarrow> records R a" and "rerooms R"
  shows "preserves R (handleDomainChangeEvent E ev teamId)"
  unfolding handleDomainChangeEvent_def domain_change_room_def
  by (intro preserves_intros promise_all_map_preserves preserves_update_room assms) simp_all



lemma dispatch_at:
  assumes st: "stepping R" and rec: "\<And>a. \<not> is_respond a \<Longrightarrow> records R a" and rr: "rerooms R"
    and rt: "\<And>a. type (heap s ev) = ''message'' \<Longrightarrow> subtype (heap s ev) = Some ''message_changed'' \<Longrightarrow>
           message (heap s ev) \<noteq> None \<Longrightarrow> previous_message (heap s ev) = Some a \<Longrightarrow> retexts R a"
  shows "R s (snd (dispatch E ev teamId s))"
proof (cases "type (heap s ev) = ''message''")
  case True
  have "R s (snd (handleMessageEvent E ev teamId s))"
  proof (rule handleMessageEvent_at)
    show "stepping R" by (rule st)
    show "\<not> is_respond a \<Longrightarrow> records R a" for a by (rule rec)
    show "subtype (heap s ev) = Some ''message_changed'' \<Longrightarrow> message (heap s ev) \<noteq> None \<Longrightarrow>
           previous_message (heap s ev) = Some a \<Longrightarrow> retexts R a" for a
      using rt True by blast
  qed
  then have "R s (snd (bnd (handleMessageEvent E ev teamId) (\<lambda>_. ret None) s))"
    by (rule bnd_at[OF st _ preserves_ret[OF st]])
  then show ?thesis using True by (simp add: dispatch_def bnd_get_event)
next
  case False
  have "preserves R (if type (heap s ev) = ''reaction_added'' \<or> type (heap s ev) = ''reaction_removed''
        then bnd (handleReaction E ev teamId) (\<lambda>_. ret None)
      else if type (heap s ev) = ''channel_rename'' then
        bnd (handleChannelRenameEvent E ev) (\<lambda>_. ret None)
      else if type (heap s ev) = ''team_domain_change'' then
        bnd (handleDomainChangeEvent E ev teamId) (\<lambda>_. ret None)
      else if type (heap s ev) = ''user_typing'' then
        bnd (handleTyping E ev teamId) (\<lambda>_. ret None)
      else ret (Some (JsString ''unknown_event'')))"
    by (intro preserves_intros handleReaction_preserves handleTyping_preserves
        handleChannelRenameEvent_preserves handleDomainChangeEvent_preserves st rec rr)
  then show ?thesis using False by (simp add: dispatch_def bnd_get_event preserves_def)
qed


lemma record_outcome_preserves:
  assumes st: "stepping R" and rec: "\<And>a. \<not> is_respond a \<Longrightarrow> records R a"
  shows "preserves R (record_outcome E ev teamId err)"
  unfolding record_outcome_def
  by (intro preserves_intros st rec) simp_all

lemma handle_classify_at:
  assumes st: "stepping R" and rec: "\<And>a. \<not> is_respond a \<Longrightarrow> records R a" and rr: "rerooms R"
    and rt: "\<And>a. type (heap s ev) = ''message'' \<Longrightarrow> subtype (heap s ev) = Some ''message_changed'' \<Longrightarrow>
           message (heap s ev) \<noteq> None \<Longrightarrow> previous_message (heap s ev) = Some a \<Longrightarrow> retexts R a"
  shows "R s (snd (handle_classify E ev teamId s))"
  unfolding handle_classify_def
proof (rule bnd_at)
  show "stepping R" by (rule st)
  show "R s (snd (try_catch (dispatch E ev teamId)
          (\<lambda>ex. bnd (emit (LogWarn ''Didn't handle event:'' (Some ex)))
                  (\<lambda>_. ret (caught_err ex))) s))"
  proof (rule try_catch_at)
    show "stepping R" by (rule st)
    show "R s (snd (dispatch E ev teamId s))"
      by (rule dispatch_at[OF st rec rr rt])
    show "preserves R (bnd (emit (LogWarn ''Didn't handle event:'' (Some e)))
            (\<lambda>_. ret (caught_err e)))" for e
      by (intro preserves_intros st rec) simp
  qed
  show "preserves R (record_outcome E ev teamId err)" for err
    by (rule record_outcome_preserves[OF st rec])
qed

lemma stepping_appends_only: "stepping (appends_only P)"
  unfolding stepping_def appends_only_def
proof (intro conjI allI impI)
  fix s :: state
  show "\<exists>xs. trace s = trace s @ xs \<and> list_all P xs" by simp
next
  fix s t u :: state
  assume "\<exists>xs. trace t = trace s @ xs \<and> list_all P xs"
    and "\<exists>xs. trace u = trace t @ xs \<and> list_all P xs"
  then obtain xs ys where "trace t = trace s @ xs" "list_all P xs"
    "trace u = trace t @ ys" "list_all P ys" by blast
  then have "trace u = trace s @ (xs @ ys) \<and> list_all P (xs @ ys)" by simp
  then show "\<exists>xs. trace u = trace s @ xs \<and> list_all P xs" by blast
qed

lemma records_appends_only: "P a \<Longrightarrow> records (appends_only P) a"
  by (simp add: records_def appends_only_def)

lemma rerooms_appends_only: "rerooms (appends_only P)"
  by (simp add: rerooms_def appends_only_def)

lemma retexts_appends_only: "retexts (appends_only P) a"
  by (simp add: retexts_def appends_only_def)

lemma handle_classify_no_respond:
  "appends_only (\<lambda>a. \<not> is_respond a) s (snd (handle_classify E ev teamId s))"
  by (rule handle_classify_at[where R="appends_only (\<lambda>a. \<not> is_respond a)"])
    (simp_all add: stepping_appends_only records_appends_only rerooms_appends_only
      retexts_appends_only)

section \<open>The outer \<^verbatim>\<open>try\<close> of \<^verbatim>\<open>handle\<close>\<close>

lemma handle_trace:
  "trace (snd (handle E ev teamId s)) =
     trace (snd (handle_try E ev teamId s)) @ caught_by_handle (fst (handle_try E ev teamId s))"
  by (simp add: handle_def try_catch_def emit_def caught_by_handle_def
      split: prod.splits sum.splits)

lemma record_outcome_grows:
  "\<exists>xs. trace (snd (record_outcome E ev teamId err s)) = trace s @ xs"
proof -
  have "preserves (appends_only (\<lambda>_. True)) (record_outcome E ev teamId err)"
    by (rule record_outcome_preserves)
      (simp_all add: stepping_appends_only records_appends_only)
  then show ?thesis
    by (auto simp: preserves_def appends_only_def)
qed

lemma handle_classify_logs:
  "\<exists>rest. trace (snd (handle_classify E ev teamId s)) =
      trace (snd (dispatch E ev teamId s)) @
      (case fst (dispatch E ev teamId s) of
         Inl e \<Rightarrow> [LogWarn ''Didn't handle event:'' (Some e)] | Inr _ \<Rightarrow> []) @ rest"
proof (cases "dispatch E ev teamId s")
  case (Pair r s1)
  show ?thesis
  proof (cases r)
    case (Inl e)
    obtain xs where "trace (snd (record_outcome E ev teamId (caught_err e)
        (s1\<lparr>trace := trace s1 @ [LogWarn ''Didn't handle event:'' (Some e)]\<rparr>))) =
      trace (s1\<lparr>trace := trace s1 @ [LogWarn ''Didn't handle event:'' (Some e)]\<rparr>) @ xs"
      using record_outcome_grows by blast
    then show ?thesis using Pair Inl
      by (intro exI[of _ xs]) (simp add: handle_classify_def proc_defs)
  next
    case (Inr err)
    obtain xs where "trace (snd (record_outcome E ev teamId err s1)) = trace s1 @ xs"
      using record_outcome_grows by blast
    then show ?thesis using Pair Inr
      by (intro exI[of _ xs]) (simp add: handle_classify_def proc_defs)
  qed
qed

text \<open>
  C3. Whatever the collaborators do, returning or throwing, \<^verbatim>\<open>handle\<close> returns and
  never throws. What its \<^verbatim>\<open>try\<close> block throws is caught and logged as an error, and
  nothing else is added to the trace; what a handler throws inside the \<^verbatim>\<open>switch\<close> is
  caught before that and logged as a warning, right after the handler's own
  actions. (A log line itself is taken not to throw.)
\<close>

theorem handle_never_throws:
  "fst (handle E ev teamId s) = Inr () \<and>
   trace (snd (handle E ev teamId s)) =
     trace (snd (handle_try E ev teamId s)) @ caught_by_handle (fst (handle_try E ev teamId s)) \<and>
   (\<exists>rest. trace (snd (handle_classify E ev teamId s)) =
      trace (snd (dispatch E ev teamId s)) @
      (case fst (dispatch E ev teamId s) of
         Inl e \<Rightarrow> [LogWarn ''Didn't handle event:'' (Some e)] | Inr _ \<Rightarrow> []) @ rest)"
proof (intro conjI)
  show "fst (handle E ev teamId s) = Inr ()"
    by (simp add: handle_def try_catch_def emit_def split: prod.splits sum.splits)
  show "trace (snd (handle E ev teamId s)) =
     trace (snd (handle_try E ev teamId s)) @ caught_by_handle (fst (handle_try E ev teamId s))"
    by (rule handle_trace)
  show "\<exists>rest. trace (snd (handle_classify E ev teamId s)) =
      trace (snd (dispatch E ev teamId s)) @
      (case fst (dispatch E ev teamId s) of
         Inl e \<Rightarrow> [LogWarn ''Didn't handle event:'' (Some e)] | Inr _ \<Rightarrow> []) @ rest"
    by (rule handle_classify_logs)
qed

section \<open>The response comes first\<close>

text \<open>
  C2. The trace of \<^verbatim>\<open>handle\<close> starts with the debug line and the start of the timer;
  if the timer started, the very next action is the response with status 200 and
  body \<^verbatim>\<open>OK\<close>, and everything else that \<^verbatim>\<open>handle\<close> does (the dispatch, the lookups, the
  replacements, the file calls, the calls on the room, the outcome) comes after it,
  in \<open>rest\<close>, where there is no second response. If the timer throws, no response
  and no other call is made.
\<close>

theorem handle_responds_first:
  "\<exists>rest. trace (snd (handle E ev teamId s)) =
      trace s @ [LogDebug (heap s ev) teamId, StartTimer ''remote_request_seconds''] @
      (case startTimer E ''remote_request_seconds'' of
         Inl e \<Rightarrow> [LogError ''SlackEventHandler.handle failed:'' (Some e)]
       | Inr _ \<Rightarrow> Respond 200 (Some ''OK'') # rest)
    \<and> list_all (\<lambda>a. \<not> is_respond a) rest"
proof (cases "startTimer E ''remote_request_seconds''")
  case (Inl e)
  then show ?thesis
    by (intro exI[of _ "[]"]) (simp add: handle_def handle_try_def proc_defs)
next
  case timer: (Inr u)
  show ?thesis
  proof (cases "response E HTTP_OK (Some ''OK'')")
    case (Inl e)
    then have "trace (snd (handle E ev teamId s)) =
      trace s @ [LogDebug (heap s ev) teamId, StartTimer ''remote_request_seconds''] @
        Respond 200 (Some ''OK'') # [LogError ''SlackEventHandler.handle failed:'' (Some e)]"
      using timer by (simp add: handle_def handle_try_def proc_defs HTTP_OK_def)
    then show ?thesis using timer
      by (intro exI[of _ "[LogError ''SlackEventHandler.handle failed:'' (Some e)]"]) simp
  next
    case (Inr v)
    define s3 where "s3 = s\<lparr>trace := trace s @ [LogDebug (heap s ev) teamId,
      StartTimer ''remote_request_seconds'', Respond 200 (Some ''OK'')]\<rparr>"
    have run: "handle_try E ev teamId s = handle_classify E ev teamId s3"
      using timer Inr by (simp add: handle_try_def proc_defs HTTP_OK_def s3_def)
    obtain xs where xs: "trace (snd (handle_classify E ev teamId s3)) = trace s3 @ xs"
      "list_all (\<lambda>a. \<not> is_respond a) xs"
      using handle_classify_no_respond[of s3 E ev teamId] by (auto simp: appends_only_def)
    show ?thesis
    proof (cases "fst (handle_classify E ev teamId s3)")
      case (Inl e)
      then have "trace (snd (handle E ev teamId s)) =
        trace s3 @ xs @ [LogError ''SlackEventHandler.handle failed:'' (Some e)]"
        using xs run by (simp add: handle_trace caught_by_handle_def)
      then show ?thesis using timer xs(2)
        by (intro exI[of _ "xs @ [LogError ''SlackEventHandler.handle failed:'' (Some e)]"])
          (simp add: s3_def)
    next
      case (Inr w)
      then have "trace (snd (handle E ev teamId s)) = trace s3 @ xs"
        using xs run by (simp add: handle_trace caught_by_handle_def)
      then show ?thesis using timer xs(2)
        by (intro exI[of _ xs]) (simp add: s3_def)
    qed
  qed
qed

theorem handle_responds_first_witness:
  "\<exists>rest. trace (snd (handle quiet_env 0 ''T1'' blank_state)) =
      [LogDebug blank_event ''T1'', StartTimer ''remote_request_seconds'',
       Respond 200 (Some ''OK'')] @ rest
    \<and> list_all (\<lambda>a. \<not> is_respond a) rest"
  using handle_responds_first[of quiet_env 0 "''T1''" blank_state]
  by (simp add: quiet_env_def blank_state_def)

section \<open>Echoes of the bridge's own bot\<close>

text \<open>
  C4. A \<^verbatim>\<open>message\<close> event of subtype \<^verbatim>\<open>bot_message\<close>, in a channel that resolves to a
  room which either has no bot identifier or has the bot identifier of the event:
  \<^verbatim>\<open>handleMessageEvent\<close> returns right after the lookup, so there is no call on the
  room and no increment of the counter, whether the room has a client or not; and
  \<^verbatim>\<open>handle\<close> records the outcome \<open>success\<close>. The timer and the response are assumed
  to return, since nothing is handled otherwise.
\<close>

theorem bot_echo_is_suppressed:
  assumes "type (heap s ev) = ''message''"
    and "subtype (heap s ev) = Some ''bot_message''"
    and "getRoomBySlackChannelId E (channel (heap s ev)) = Inr (Some room)"
    and "\<not> truthy (SlackBotId (rooms s room)) \<or> bot_id (heap s ev) = SlackBotId (rooms s room)"
    and "startTimer E ''remote_request_seconds'' = Inr ()"
    and "response E HTTP_OK (Some ''OK'') = Inr ()"
  shows "handleMessageEvent E ev teamId s =
      (Inr (), s\<lparr>trace := trace s @ [GetRoomBySlackChannelId (channel (heap s ev))]\<rparr>) \<and>
    trace (snd (handle E ev teamId s)) =
      trace s @
      [LogDebug (heap s ev) teamId, StartTimer ''remote_request_seconds'',
       Respond 200 (Some ''OK''), GetRoomBySlackChannelId (channel (heap s ev)),
       EndTimer success] @ caught_by_handle (endTimer E success)"
  using assms
  by (simp add: handle_trace handle_try_def handle_classify_def record_outcome_def dispatch_def handleMessageEvent_def proc_defs
      HTTP_OK_def caught_by_handle_def split: prod.splits sum.splits)

theorem bot_echo_is_suppressed_witness:
  "trace (snd (handle one_room_env 0 ''T1''
      (blank_state\<lparr>rooms := (\<lambda>_. client_room),
                   heap := (\<lambda>_. blank_event\<lparr>channel := Some ''C1'', subtype := Some ''bot_message'',
                                             bot_id := Some ''B1'', msg_text := Some ''hi''\<rparr>)\<rparr>))) =
    [LogDebug (blank_event\<lparr>channel := Some ''C1'', subtype := Some ''bot_message'',
                           bot_id := Some ''B1'', msg_text := Some ''hi''\<rparr>) ''T1'',
     StartTimer ''remote_request_seconds'', Respond 200 (Some ''OK''),
     GetRoomBySlackChannelId (Some ''C1''), EndTimer success]"
  using bot_echo_is_suppressed[of "blank_state\<lparr>rooms := (\<lambda>_. client_room),
                   heap := (\<lambda>_. blank_event\<lparr>channel := Some ''C1'', subtype := Some ''bot_message'',
                                             bot_id := Some ''B1'', msg_text := Some ''hi''\<rparr>)\<rparr>" 0 one_room_env 0 "''T1''"]
  by (simp add: one_room_env_def quiet_env_def blank_state_def blank_event_def client_room_def
      blank_room_def truthy_def HTTP_OK_def caught_by_handle_def)

section \<open>Events for a channel that is not bridged\<close>

text \<open>
  C1. A \<^verbatim>\<open>message\<close> event for channel \<^verbatim>\<open>C2\<close>, which no room bridges: the handler throws
  \<^verbatim>\<open>new Error("unknown_channel")\<close>, \<^verbatim>\<open>err\<close> holds that object, and the test
  \<^verbatim>\<open>err === "unknown_channel"\<close> against the string fails. The recorded outcome is
  \<open>fail\<close>, the counter is not incremented, and the line that names the channel
  and the team is not logged.
\<close>

theorem unknown_channel_ends_as_fail:
  "trace (snd (handle one_room_env 0 ''T1''
      (blank_state\<lparr>heap := (\<lambda>_. blank_event\<lparr>channel := Some ''C2'', user := Some ''U1'',
                                             msg_text := Some ''hello''\<rparr>)\<rparr>))) =
    [LogDebug (blank_event\<lparr>channel := Some ''C2'', user := Some ''U1'',
                           msg_text := Some ''hello''\<rparr>) ''T1'',
     StartTimer ''remote_request_seconds'', Respond 200 (Some ''OK''),
     GetRoomBySlackChannelId (Some ''C2''),
     LogWarn ''Didn't handle event:'' (Some (JsError ''unknown_channel'')),
     EndTimer fail,
     LogError ''Failed to handle slack event:'' (Some (JsError ''unknown_channel''))]"
  by (simp add: handle_def handle_try_def handle_classify_def caught_err_def record_outcome_def
      dispatch_def handleMessageEvent_def proc_defs one_room_env_def quiet_env_def
      blank_state_def blank_event_def HTTP_OK_def)

section \<open>A change of the team domain\<close>

lemma promise_all_map_Cons_state:
  "snd (promise_all_map f (x # xs) s) = snd (promise_all_map f xs (snd (f x s)))"
  by (simp add: proc_defs split: prod.splits sum.splits option.splits)

lemma domain_change_room_state:
  "snd (domain_change_room E event x s) =
    s\<lparr>rooms := (rooms s)(x := set_SlackTeamDomain E (rooms s x) (domain event)),
      trace := trace s @
        (if isDirty (set_SlackTeamDomain E (rooms s x) (domain event)) then [UpsertRoom x] else [])\<rparr>"
  by (simp add: domain_change_room_def proc_defs)

lemma promise_all_domain_change:
  assumes "distinct rs"
  shows "snd (promise_all_map (domain_change_room E event) rs s) =
    s\<lparr>rooms := (\<lambda>a. if a \<in> set rs then set_SlackTeamDomain E (rooms s a) (domain event)
                      else rooms s a),
      trace := trace s @
        map UpsertRoom
          (filter (\<lambda>a. isDirty (set_SlackTeamDomain E (rooms s a) (domain event))) rs)\<rparr>"
  using assms
proof (induction rs arbitrary: s)
  case Nil
  show ?case by (simp add: ret_def)
next
  case (Cons x xs)
  have notin: "x \<notin> set xs" and dist: "distinct xs" using Cons.prems by simp_all
  have same: "filter (\<lambda>a. isDirty (set_SlackTeamDomain E (if a = x then g else rooms s a) (domain event))) xs
      = filter (\<lambda>a. isDirty (set_SlackTeamDomain E (rooms s a) (domain event))) xs" for g
    using notin by (intro filter_cong) auto
  show ?case
    unfolding promise_all_map_Cons_state domain_change_room_state Cons.IH[OF dist]
    using notin by (auto simp: fun_eq_iff same)
qed

text \<open>
  C8. \<^verbatim>\<open>handleDomainChangeEvent\<close>, for the rooms \<open>rs\<close> that the registry gives for
  the team (none, one or many, each once): every one of them is assigned the domain
  of the event, through the setter, and the rooms not in \<open>rs\<close> are untouched; after
  the lookup, the trace has one \<^verbatim>\<open>upsertRoom\<close> for each room of \<open>rs\<close> that is dirty after
  its assignment, in order, and nothing else, whatever \<^verbatim>\<open>upsertRoom\<close> returns or
  throws. When the setter stores what it is given, every room of \<open>rs\<close> ends with
  the new domain.
\<close>

theorem domain_change_reaches_every_room:
  assumes "getRoomsBySlackTeamId E teamId = Inr rs" and "distinct rs"
  shows "rooms (snd (handleDomainChangeEvent E ev teamId s)) =
      (\<lambda>a. if a \<in> set rs then set_SlackTeamDomain E (rooms s a) (domain (heap s ev))
           else rooms s a) \<and>
    trace (snd (handleDomainChangeEvent E ev teamId s)) =
      trace s @ GetRoomsBySlackTeamId teamId #
        map UpsertRoom
          (filter (\<lambda>a. isDirty (set_SlackTeamDomain E (rooms s a) (domain (heap s ev)))) rs) \<and>
    ((\<forall>r d. SlackTeamDomain (set_SlackTeamDomain E r d) = d) \<longrightarrow>
      (\<forall>a \<in> set rs. SlackTeamDomain (rooms (snd (handleDomainChangeEvent E ev teamId s)) a) =
          domain (heap s ev)))"
proof -
  have "snd (handleDomainChangeEvent E ev teamId s) =
    snd (promise_all_map (domain_change_room E (heap s ev)) rs
      (s\<lparr>trace := trace s @ [GetRoomsBySlackTeamId teamId]\<rparr>))"
    using assms(1) by (simp add: handleDomainChangeEvent_def bnd_def get_event_def call_def)
  then have "snd (handleDomainChangeEvent E ev teamId s) =
    s\<lparr>rooms := (\<lambda>a. if a \<in> set rs then set_SlackTeamDomain E (rooms s a) (domain (heap s ev))
                      else rooms s a),
      trace := trace s @ GetRoomsBySlackTeamId teamId #
        map UpsertRoom
          (filter (\<lambda>a. isDirty (set_SlackTeamDomain E (rooms s a) (domain (heap s ev)))) rs)\<rparr>"
    by (simp add: promise_all_domain_change[OF assms(2)] cong: if_cong)
  then show ?thesis by simp
qed

theorem domain_change_reaches_every_room_witness:
  "trace (snd (handleDomainChangeEvent three_room_env 0 ''T1'' three_room_state)) =
     [GetRoomsBySlackTeamId ''T1'', UpsertRoom 1, UpsertRoom 2] \<and>
   map (\<lambda>a. SlackTeamDomain (rooms (snd (handleDomainChangeEvent three_room_env 0 ''T1''
     three_room_state)) a)) [1, 2, 3] = [Some ''new'', Some ''new'', Some ''new'']"
proof -
  have found: "getRoomsBySlackTeamId three_room_env ''T1'' = Inr [1, 2, 3]"
    by (simp add: three_room_env_def)
  have once: "distinct [1, 2, 3 :: nat]"
    by simp
  have stores: "\<forall>r d. SlackTeamDomain (set_SlackTeamDomain three_room_env r d) = d"
    by (simp add: three_room_env_def quiet_env_def)
  show ?thesis
    using domain_change_reaches_every_room[OF found once, of 0 three_room_state] stores
    by (simp add: three_room_env_def quiet_env_def three_room_state_def blank_state_def
        blank_room_def blank_event_def)
qed

section \<open>Messages\<close>

lemmas fixture_defs = quiet_env_def one_room_env_def blank_state_def blank_event_def
  blank_room_def client_room_def client_state_def deleted_event_def bridged_env_def
  edit_event_def edit_state_def resolving_env_def build_event_def empty_fallback_event_def
  bot_edit_def
  other_bot_edit_def user_edit_def without_client_def half_edit_event_def

lemmas run_defs = handle_def handle_try_def handle_classify_def caught_err_def
  record_outcome_def dispatch_def
  handleMessageEvent_def message_attachments_def message_subtypes_def message_forward_def
  assign_ids_def truthy_def js_or_def js_str_def HTTP_OK_def Let_def

text \<open>
  When the timer and the response return, a \<^verbatim>\<open>message\<close> event reaches
  \<^verbatim>\<open>handleMessageEvent\<close>; when that returns, the outcome is \<open>success\<close>; and after it
  \<^verbatim>\<open>handle\<close> calls nothing on a room.
\<close>

lemma handle_message_returns:
  assumes "type (heap s ev) = ''message''"
    and "startTimer E ''remote_request_seconds'' = Inr ()"
    and "response E HTTP_OK (Some ''OK'') = Inr ()"
    and "handleMessageEvent E ev teamId
           (s\<lparr>trace := trace s @ [LogDebug (heap s ev) teamId,
              StartTimer ''remote_request_seconds'', Respond 200 (Some ''OK'')]\<rparr>) = (Inr (), s')"
  shows "trace (snd (handle E ev teamId s)) =
           trace s' @ [EndTimer success] @ caught_by_handle (endTimer E success)"
    and "heap (snd (handle E ev teamId s)) = heap s'"
  using assms
  by (simp_all add: handle_def handle_try_def handle_classify_def record_outcome_def dispatch_def proc_defs
      HTTP_OK_def caught_by_handle_def split: prod.splits sum.splits)

lemma handle_message_forwards:
  assumes "type (heap s ev) = ''message''"
    and "startTimer E ''remote_request_seconds'' = Inr ()"
    and "response E HTTP_OK (Some ''OK'') = Inr ()"
  shows "filter is_forward (trace (snd (handle E ev teamId s))) =
    filter is_forward (trace (snd (handleMessageEvent E ev teamId
      (s\<lparr>trace := trace s @ [LogDebug (heap s ev) teamId,
         StartTimer ''remote_request_seconds'', Respond 200 (Some ''OK'')]\<rparr>))))"
  using assms
  by (simp add: handle_def handle_try_def handle_classify_def record_outcome_def dispatch_def proc_defs
      HTTP_OK_def Let_def split: prod.splits sum.splits)

text \<open>The steps of \<^verbatim>\<open>handleMessageEvent\<close>, one at a time.\<close>

lemma message_attachments_first:
  assumes "attachments msg = Some (a # others)"
    and "doChannelUserReplacements E (msg\<lparr>msg_text := fallback a\<rparr>) (fallback a)
           (SlackClient (rooms s room)) = Inr t"
    and "onSlackMessage E room (msg\<lparr>msg_text := t\<rparr>) teamId None = Inr ()"
  shows "message_attachments E room teamId ev msg s =
    (Inr (), s\<lparr>trace := trace s @
       [DoChannelUserReplacements (msg\<lparr>msg_text := fallback a\<rparr>) (fallback a)
          (SlackClient (rooms s room)),
        OnSlackMessage room (msg\<lparr>msg_text := t\<rparr>) teamId None]\<rparr>)"
  using assms by (simp add: message_attachments_def proc_defs Let_def)

lemma message_attachments_empty:
  assumes "attachments msg = Some []" and "msg_text msg = Some []"
  shows "message_attachments E room teamId ev msg s = (Inr (), s)"
  using assms by (simp add: message_attachments_def proc_defs Let_def)

lemma handleMessageEvent_to_attachments:
  assumes "getRoomBySlackChannelId E (channel (heap s ev)) = Inr (Some room)"
    and "SlackClient (rooms s room) = Some cl"
    and "\<not> (subtype (heap s ev) = Some ''bot_message'' \<and>
            (\<not> truthy (SlackBotId (rooms s room)) \<or> bot_id (heap s ev) = SlackBotId (rooms s room)))"
    and "subtype (heap s ev) \<noteq> Some ''channel_topic''"
    and "subtype (heap s ev) \<noteq> Some ''group_topic''"
    and "incCounter E ''received_messages'' ''remote'' = Inr ()"
  shows "handleMessageEvent E ev teamId s =
    message_attachments E room teamId ev
      (assign_ids (heap s ev) (channel (heap s ev)) (rooms s room) teamId)
      (s\<lparr>trace := trace s @ [GetRoomBySlackChannelId (channel (heap s ev)),
          IncCounter ''received_messages'' ''remote'']\<rparr>)"
  using assms by (auto simp: handleMessageEvent_def proc_defs Let_def)


lemma message_attachments_none:
  assumes "attachments msg = None \<or> (attachments msg = Some [] \<and> msg_text msg \<noteq> Some [])"
  shows "message_attachments E room teamId ev msg = message_subtypes E room teamId ev msg"
  using assms by (auto simp: message_attachments_def)

lemma message_forward_plain:
  assumes "SlackClient (rooms s room) = Some cl"
    and "subtype msg \<noteq> Some ''file_share'' \<or> msg_file msg = None"
    and "doChannelUserReplacements E msg (msg_text msg) (Some cl) = Inr t"
    and "onSlackMessage E room (msg\<lparr>msg_text := t\<rparr>) teamId None = Inr ()"
  shows "message_forward E room teamId ev msg s =
    (Inr (), s\<lparr>trace := trace s @
       [DoChannelUserReplacements msg (msg_text msg) (Some cl),
        OnSlackMessage room (msg\<lparr>msg_text := t\<rparr>) teamId None]\<rparr>)"
  using assms by (auto simp: message_forward_def proc_defs Let_def split: option.splits)

lemma message_subtypes_changed_incomplete:
  assumes "subtype msg = Some ''message_changed''"
    and "message msg = None \<or> previous_message msg = None"
  shows "message_subtypes E room teamId ev msg = message_forward E room teamId ev msg"
  using assms by (auto simp: message_subtypes_def)

lemma message_subtypes_deleted:
  assumes "subtype msg = Some ''message_deleted''"
  shows "message_subtypes E room teamId ev msg =
    bnd (call (GetEventBySlackId (channel msg) (deleted_ts msg))
           (getEventBySlackId E (channel msg) (deleted_ts msg))) (\<lambda>originalEvent.
    case originalEvent of
      Some oe \<Rightarrow>
        call (RedactEvent (roomId oe) (eventId oe)) (redactEvent E (roomId oe) (eventId oe))
    | None \<Rightarrow> message_forward E room teamId ev msg)"
  using assms by (simp add: message_subtypes_def)

lemma message_subtypes_own_edit:
  assumes "subtype msg = Some ''message_changed''"
    and "message msg = Some m" and "previous_message msg = Some p"
    and "bot_id (heap s m) = Some b" and "SlackBotId (rooms s room) = Some b"
    and "msg1 = msg\<lparr>user_id := user (heap s m), msg_text := msg_text (heap s m)\<rparr>"
  shows "message_subtypes E room teamId ev msg s =
    (case doChannelUserReplacements E msg1 (msg_text (heap s p)) (SlackClient (rooms s room)) of
       Inl ex \<Rightarrow>
         (Inl ex, s\<lparr>trace := trace s @
            [DoChannelUserReplacements msg1 (msg_text (heap s p)) (SlackClient (rooms s room))]\<rparr>)
     | Inr t \<Rightarrow>
         (Inr (), s\<lparr>trace := trace s @
            [DoChannelUserReplacements msg1 (msg_text (heap s p)) (SlackClient (rooms s room))],
            heap := (heap s)(p := (heap s p)\<lparr>msg_text := t\<rparr>)\<rparr>))"
  using assms
  by (auto simp: message_subtypes_def proc_defs Let_def split: sum.splits)

subsection \<open>Attachments\<close>

text \<open>
  A \<^verbatim>\<open>bot_message\<close> of the bridge's own bot is stopped as an echo before its
  attachments are looked at.
\<close>

lemma echo_with_attachments_is_not_forwarded:
  "filter is_forward (trace (snd (handle one_room_env 0 ''T1'' (client_state (build_event ''B1''))))) = []"
  by (simp add: run_defs proc_defs fixture_defs)

text \<open>
  What lines 176 to 187 do with a \<^verbatim>\<open>message\<close> event in a room with a client, that is
  not a topic change and not stopped as an echo. If it carries at least one
  attachment, the text becomes the fallback of the first one, that text goes
  through the replacement of users and channels, and the result is forwarded with
  one call of \<^verbatim>\<open>onSlackMessage\<close>, whatever that text is; the other attachments play no
  part. The test of line 183 is reached with an empty array only: then an empty
  text makes the handler return without any call.
\<close>

lemma attachments_first_fallback_only:
  assumes "type (heap s ev) = ''message''"
    and "getRoomBySlackChannelId E (channel (heap s ev)) = Inr (Some room)"
    and "SlackClient (rooms s room) = Some cl"
    and "\<not> (subtype (heap s ev) = Some ''bot_message'' \<and>
            (\<not> truthy (SlackBotId (rooms s room)) \<or> bot_id (heap s ev) = SlackBotId (rooms s room)))"
    and "subtype (heap s ev) \<noteq> Some ''channel_topic''"
    and "subtype (heap s ev) \<noteq> Some ''group_topic''"
    and "startTimer E ''remote_request_seconds'' = Inr ()"
    and "response E HTTP_OK (Some ''OK'') = Inr ()"
    and "incCounter E ''received_messages'' ''remote'' = Inr ()"
    and "msg = assign_ids (heap s ev) (channel (heap s ev)) (rooms s room) teamId"
  shows "(attachments (heap s ev) = Some (a # others) \<longrightarrow>
          doChannelUserReplacements E (msg\<lparr>msg_text := fallback a\<rparr>) (fallback a) (Some cl) = Inr t \<longrightarrow>
          onSlackMessage E room (msg\<lparr>msg_text := t\<rparr>) teamId None = Inr () \<longrightarrow>
          trace (snd (handle E ev teamId s)) =
            trace s @
            [LogDebug (heap s ev) teamId, StartTimer ''remote_request_seconds'',
             Respond 200 (Some ''OK''), GetRoomBySlackChannelId (channel (heap s ev)),
             IncCounter ''received_messages'' ''remote'',
             DoChannelUserReplacements (msg\<lparr>msg_text := fallback a\<rparr>) (fallback a) (Some cl),
             OnSlackMessage room (msg\<lparr>msg_text := t\<rparr>) teamId None,
             EndTimer success] @ caught_by_handle (endTimer E success)) \<and>
         (attachments (heap s ev) = Some [] \<longrightarrow> msg_text (heap s ev) = Some [] \<longrightarrow>
          trace (snd (handle E ev teamId s)) =
            trace s @
            [LogDebug (heap s ev) teamId, StartTimer ''remote_request_seconds'',
             Respond 200 (Some ''OK''), GetRoomBySlackChannelId (channel (heap s ev)),
             IncCounter ''received_messages'' ''remote'',
             EndTimer success] @ caught_by_handle (endTimer E success))"
proof -
  define s3 where "s3 = s\<lparr>trace := trace s @ [LogDebug (heap s ev) teamId,
    StartTimer ''remote_request_seconds'', Respond 200 (Some ''OK'')]\<rparr>"
  have enter: "handleMessageEvent E ev teamId s3 =
    message_attachments E room teamId ev msg
      (s3\<lparr>trace := trace s3 @ [GetRoomBySlackChannelId (channel (heap s ev)),
          IncCounter ''received_messages'' ''remote'']\<rparr>)"
    using handleMessageEvent_to_attachments[of E s3 ev room cl teamId] assms
    by (simp add: s3_def)
  show ?thesis
  proof (intro conjI impI)
    assume "attachments (heap s ev) = Some (a # others)"
      and "doChannelUserReplacements E (msg\<lparr>msg_text := fallback a\<rparr>) (fallback a) (Some cl) = Inr t"
      and "onSlackMessage E room (msg\<lparr>msg_text := t\<rparr>) teamId None = Inr ()"
    then have "handleMessageEvent E ev teamId s3 =
      (Inr (), s3\<lparr>trace := trace s3 @ [GetRoomBySlackChannelId (channel (heap s ev)),
          IncCounter ''received_messages'' ''remote'',
          DoChannelUserReplacements (msg\<lparr>msg_text := fallback a\<rparr>) (fallback a) (Some cl),
          OnSlackMessage room (msg\<lparr>msg_text := t\<rparr>) teamId None]\<rparr>)"
      unfolding enter using assms(3,10)
      by (subst message_attachments_first[where a=a and others=others and t=t])
        (simp_all add: s3_def)
    from handle_message_returns(1)[OF assms(1,7,8) this[unfolded s3_def]]
    show "trace (snd (handle E ev teamId s)) =
            trace s @
            [LogDebug (heap s ev) teamId, StartTimer ''remote_request_seconds'',
             Respond 200 (Some ''OK''), GetRoomBySlackChannelId (channel (heap s ev)),
             IncCounter ''received_messages'' ''remote'',
             DoChannelUserReplacements (msg\<lparr>msg_text := fallback a\<rparr>) (fallback a) (Some cl),
             OnSlackMessage room (msg\<lparr>msg_text := t\<rparr>) teamId None,
             EndTimer success] @ caught_by_handle (endTimer E success)"
      by simp
  next
    assume "attachments (heap s ev) = Some []" and "msg_text (heap s ev) = Some []"
    then have "handleMessageEvent E ev teamId s3 =
      (Inr (), s3\<lparr>trace := trace s3 @ [GetRoomBySlackChannelId (channel (heap s ev)),
          IncCounter ''received_messages'' ''remote'']\<rparr>)"
      unfolding enter using assms(10)
      by (subst message_attachments_empty) simp_all
    from handle_message_returns(1)[OF assms(1,7,8) this[unfolded s3_def]]
    show "trace (snd (handle E ev teamId s)) =
            trace s @
            [LogDebug (heap s ev) teamId, StartTimer ''remote_request_seconds'',
             Respond 200 (Some ''OK''), GetRoomBySlackChannelId (channel (heap s ev)),
             IncCounter ''received_messages'' ''remote'',
             EndTimer success] @ caught_by_handle (endTimer E success)"
      by simp
  qed
qed

lemma attachments_first_fallback_only_example:
  "trace (snd (handle one_room_env 0 ''T1'' (client_state (build_event ''B2'')))) =
     [LogDebug (build_event ''B2'') ''T1'', StartTimer ''remote_request_seconds'',
      Respond 200 (Some ''OK''), GetRoomBySlackChannelId (Some ''C1''),
      IncCounter ''received_messages'' ''remote'',
      DoChannelUserReplacements
        ((assign_ids (build_event ''B2'') (Some ''C1'') client_room ''T1'')
           \<lparr>msg_text := Some ''build passed''\<rparr>)
        (Some ''build passed'') (Some (WebClient ''xoxp'')),
      OnSlackMessage 0
        ((assign_ids (build_event ''B2'') (Some ''C1'') client_room ''T1'')
           \<lparr>msg_text := Some ''build passed''\<rparr>) ''T1'' None,
      EndTimer success] \<and>
   trace (snd (handle one_room_env 0 ''T1''
       (client_state ((build_event ''B2'')\<lparr>attachments := Some [], msg_text := Some []\<rparr>)))) =
     [LogDebug ((build_event ''B2'')\<lparr>attachments := Some [], msg_text := Some []\<rparr>) ''T1'',
      StartTimer ''remote_request_seconds'',
      Respond 200 (Some ''OK''), GetRoomBySlackChannelId (Some ''C1''),
      IncCounter ''received_messages'' ''remote'', EndTimer success]"
  using attachments_first_fallback_only[of "client_state (build_event ''B2'')" 0 one_room_env 0
      "WebClient ''xoxp''" "assign_ids (build_event ''B2'') (Some ''C1'') client_room ''T1''" "''T1''"
      "\<lparr>fallback = Some ''build passed''\<rparr>" "[\<lparr>fallback = Some ''details''\<rparr>]"
      "Some ''build passed''"]
    attachments_first_fallback_only[of
      "client_state ((build_event ''B2'')\<lparr>attachments := Some [], msg_text := Some []\<rparr>)" 0
      one_room_env 0 "WebClient ''xoxp''"
      "assign_ids ((build_event ''B2'')\<lparr>attachments := Some [], msg_text := Some []\<rparr>)
         (Some ''C1'') client_room ''T1''" "''T1''"
      "\<lparr>fallback = Some ''build passed''\<rparr>" "[\<lparr>fallback = Some ''details''\<rparr>]"
      "Some ''build passed''"]
  by (simp add: fixture_defs assign_ids_def caught_by_handle_def HTTP_OK_def js_or_def truthy_def)

text \<open>
  C7. The claim has a message whose attachments resolve to an empty text dropped,
  without any call on the room, and line 183 is the test for it; but the loop of
  lines 178 to 182 returns in its first round, so that test is never reached when
  there is an attachment. Here a message of another bot, in a room with a client,
  has one attachment whose fallback is the empty string: it is forwarded, with the
  empty string as its text, and the outcome is \<open>success\<close>.
\<close>

theorem empty_fallback_is_forwarded:
  "trace (snd (handle one_room_env 0 ''T1'' (client_state empty_fallback_event))) =
     [LogDebug empty_fallback_event ''T1'', StartTimer ''remote_request_seconds'',
      Respond 200 (Some ''OK''), GetRoomBySlackChannelId (Some ''C1''),
      IncCounter ''received_messages'' ''remote'',
      DoChannelUserReplacements
        ((assign_ids empty_fallback_event (Some ''C1'') client_room ''T1'')\<lparr>msg_text := Some []\<rparr>)
        (Some []) (Some (WebClient ''xoxp'')),
      OnSlackMessage 0
        ((assign_ids empty_fallback_event (Some ''C1'') client_room ''T1'')\<lparr>msg_text := Some []\<rparr>)
        ''T1'' None,
      EndTimer success]"
  by (simp add: run_defs proc_defs fixture_defs)

subsection \<open>An edit without its two messages\<close>

text \<open>
  C10, as stated, fails: when the edit event carries an attachment, the text that
  is forwarded is the fallback of the attachment, not the text of the event.
\<close>

theorem changed_with_attachment_takes_its_fallback:
  "filter is_forward (trace (snd (handle one_room_env 0 ''T1''
      (client_state (half_edit_event\<lparr>attachments := Some [\<lparr>fallback = Some ''from attachment''\<rparr>]\<rparr>))))) =
     [OnSlackMessage 0
        ((assign_ids
            (half_edit_event\<lparr>attachments := Some [\<lparr>fallback = Some ''from attachment''\<rparr>]\<rparr>)
            (Some ''C1'') client_room ''T1'')\<lparr>msg_text := Some ''from attachment''\<rparr>)
        ''T1'' None]"
  by (simp add: run_defs proc_defs fixture_defs)

text \<open>
  C10, amended. A \<^verbatim>\<open>message_changed\<close> event without the edited message or without the
  previous message, in a room with a client, that carries no attachments (or an
  empty array of them and a text that is not the empty string): no field is taken
  from a nested message, the text of the event goes through the replacement of
  users and channels, and the result is forwarded with one call of
  \<^verbatim>\<open>onSlackMessage\<close>, with the acting identifier of the event (its user, else its bot);
  the outcome is \<open>success\<close> and no stored object changes. The collaborators
  involved are assumed to return.
\<close>

theorem changed_without_bodies_is_forwarded:
  assumes "type (heap s ev) = ''message''"
    and "subtype (heap s ev) = Some ''message_changed''"
    and "message (heap s ev) = None \<or> previous_message (heap s ev) = None"
    and "attachments (heap s ev) = None \<or>
         (attachments (heap s ev) = Some [] \<and> msg_text (heap s ev) \<noteq> Some [])"
    and "getRoomBySlackChannelId E (channel (heap s ev)) = Inr (Some room)"
    and "SlackClient (rooms s room) = Some cl"
    and "startTimer E ''remote_request_seconds'' = Inr ()"
    and "response E HTTP_OK (Some ''OK'') = Inr ()"
    and "incCounter E ''received_messages'' ''remote'' = Inr ()"
    and "msg = assign_ids (heap s ev) (channel (heap s ev)) (rooms s room) teamId"
    and "doChannelUserReplacements E msg (msg_text (heap s ev)) (Some cl) = Inr t"
    and "onSlackMessage E room (msg\<lparr>msg_text := t\<rparr>) teamId None = Inr ()"
  shows "trace (snd (handle E ev teamId s)) =
      trace s @
      [LogDebug (heap s ev) teamId, StartTimer ''remote_request_seconds'',
       Respond 200 (Some ''OK''), GetRoomBySlackChannelId (channel (heap s ev)),
       IncCounter ''received_messages'' ''remote'',
       DoChannelUserReplacements msg (msg_text (heap s ev)) (Some cl),
       OnSlackMessage room (msg\<lparr>msg_text := t\<rparr>) teamId None,
       EndTimer success] @ caught_by_handle (endTimer E success) \<and>
    user_id msg = js_or (user (heap s ev)) (bot_id (heap s ev)) \<and>
    heap (snd (handle E ev teamId s)) = heap s"
proof -
  define s3 where "s3 = s\<lparr>trace := trace s @ [LogDebug (heap s ev) teamId,
    StartTimer ''remote_request_seconds'', Respond 200 (Some ''OK'')]\<rparr>"
  define s5 where "s5 = s3\<lparr>trace := trace s3 @ [GetRoomBySlackChannelId (channel (heap s ev)),
          IncCounter ''received_messages'' ''remote'']\<rparr>"
  have "handleMessageEvent E ev teamId s3 = message_attachments E room teamId ev msg s5"
    using handleMessageEvent_to_attachments[of E s3 ev room cl teamId] assms
    by (simp add: s3_def s5_def)
  also have "\<dots> = message_forward E room teamId ev msg s5"
    using assms(2,3,4,10)
    by (simp add: message_attachments_none message_subtypes_changed_incomplete)
  also have "\<dots> = (Inr (), s5\<lparr>trace := trace s5 @
       [DoChannelUserReplacements msg (msg_text msg) (Some cl),
        OnSlackMessage room (msg\<lparr>msg_text := t\<rparr>) teamId None]\<rparr>)"
    using assms(2,6,10,11,12)
    by (intro message_forward_plain) (simp_all add: s5_def s3_def)
  finally have run: "handleMessageEvent E ev teamId s3 = (Inr (), s5\<lparr>trace := trace s5 @
       [DoChannelUserReplacements msg (msg_text msg) (Some cl),
        OnSlackMessage room (msg\<lparr>msg_text := t\<rparr>) teamId None]\<rparr>)" .
  show ?thesis
    using handle_message_returns[OF assms(1,7,8) run[unfolded s3_def]] assms(10)
    by (simp add: s5_def s3_def assign_ids_def)
qed

theorem changed_without_bodies_is_forwarded_witness:
  "trace (snd (handle one_room_env 0 ''T1'' (client_state half_edit_event))) =
     [LogDebug half_edit_event ''T1'', StartTimer ''remote_request_seconds'',
      Respond 200 (Some ''OK''), GetRoomBySlackChannelId (Some ''C1''),
      IncCounter ''received_messages'' ''remote'',
      DoChannelUserReplacements (assign_ids half_edit_event (Some ''C1'') client_room ''T1'')
        (Some ''original'') (Some (WebClient ''xoxp'')),
      OnSlackMessage 0 (assign_ids half_edit_event (Some ''C1'') client_room ''T1'') ''T1'' None,
      EndTimer success] \<and>
   user_id (assign_ids half_edit_event (Some ''C1'') client_room ''T1'') = Some ''U1''"
  using changed_without_bodies_is_forwarded[of "client_state half_edit_event" 0 one_room_env 0
      "WebClient ''xoxp''" "assign_ids half_edit_event (Some ''C1'') client_room ''T1''" "''T1''"
      "Some ''original''"]
  by (simp add: fixture_defs assign_ids_def caught_by_handle_def HTTP_OK_def js_or_def truthy_def)

subsection \<open>A deleted message\<close>

text \<open>
  C5, as stated, fails: when the datastore has no bridged message for the deleted
  one, the handler goes on to the replacement of users and channels and to
  \<^verbatim>\<open>onSlackMessage\<close>.
\<close>

theorem deleted_message_is_forwarded_when_not_bridged:
  "filter is_forward (trace (snd (handle one_room_env 0 ''T1'' (client_state deleted_event)))) =
     [OnSlackMessage 0 (assign_ids deleted_event (Some ''C1'') client_room ''T1'') ''T1'' None]"
  by (simp add: run_defs proc_defs fixture_defs)

text \<open>
  C5, amended. A \<^verbatim>\<open>message_deleted\<close> event in a room with a client, that carries no
  attachments (or an empty array of them and a text that is not the empty string).
  When the datastore finds the bridged message for the channel and the deleted
  timestamp, the bot's client redacts it and the handler is done: there is no call
  of \<^verbatim>\<open>onSlackMessage\<close>. When it finds none, there is no redaction; the event goes
  through the replacement of users and channels and is forwarded with one call of
  \<^verbatim>\<open>onSlackMessage\<close>. In both cases the outcome is \<open>success\<close>. The collaborators
  involved are assumed to return.
\<close>

theorem deleted_message_paths:
  assumes "type (heap s ev) = ''message''"
    and "subtype (heap s ev) = Some ''message_deleted''"
    and "attachments (heap s ev) = None \<or>
         (attachments (heap s ev) = Some [] \<and> msg_text (heap s ev) \<noteq> Some [])"
    and "getRoomBySlackChannelId E (channel (heap s ev)) = Inr (Some room)"
    and "SlackClient (rooms s room) = Some cl"
    and "startTimer E ''remote_request_seconds'' = Inr ()"
    and "response E HTTP_OK (Some ''OK'') = Inr ()"
    and "incCounter E ''received_messages'' ''remote'' = Inr ()"
    and "msg = assign_ids (heap s ev) (channel (heap s ev)) (rooms s room) teamId"
  shows "(getEventBySlackId E (channel (heap s ev)) (deleted_ts (heap s ev)) = Inr (Some oe) \<longrightarrow>
          redactEvent E (roomId oe) (eventId oe) = Inr () \<longrightarrow>
          trace (snd (handle E ev teamId s)) =
            trace s @
            [LogDebug (heap s ev) teamId, StartTimer ''remote_request_seconds'',
             Respond 200 (Some ''OK''), GetRoomBySlackChannelId (channel (heap s ev)),
             IncCounter ''received_messages'' ''remote'',
             GetEventBySlackId (channel (heap s ev)) (deleted_ts (heap s ev)),
             RedactEvent (roomId oe) (eventId oe),
             EndTimer success] @ caught_by_handle (endTimer E success)) \<and>
         (getEventBySlackId E (channel (heap s ev)) (deleted_ts (heap s ev)) = Inr None \<longrightarrow>
          doChannelUserReplacements E msg (msg_text (heap s ev)) (Some cl) = Inr t \<longrightarrow>
          onSlackMessage E room (msg\<lparr>msg_text := t\<rparr>) teamId None = Inr () \<longrightarrow>
          trace (snd (handle E ev teamId s)) =
            trace s @
            [LogDebug (heap s ev) teamId, StartTimer ''remote_request_seconds'',
             Respond 200 (Some ''OK''), GetRoomBySlackChannelId (channel (heap s ev)),
             IncCounter ''received_messages'' ''remote'',
             GetEventBySlackId (channel (heap s ev)) (deleted_ts (heap s ev)),
             DoChannelUserReplacements msg (msg_text (heap s ev)) (Some cl),
             OnSlackMessage room (msg\<lparr>msg_text := t\<rparr>) teamId None,
             EndTimer success] @ caught_by_handle (endTimer E success))"
proof -
  define s3 where "s3 = s\<lparr>trace := trace s @ [LogDebug (heap s ev) teamId,
    StartTimer ''remote_request_seconds'', Respond 200 (Some ''OK'')]\<rparr>"
  define s5 where "s5 = s3\<lparr>trace := trace s3 @ [GetRoomBySlackChannelId (channel (heap s ev)),
          IncCounter ''received_messages'' ''remote'']\<rparr>"
  define s6 where "s6 = s5\<lparr>trace := trace s5 @
    [GetEventBySlackId (channel (heap s ev)) (deleted_ts (heap s ev))]\<rparr>"
  have "handleMessageEvent E ev teamId s3 = message_attachments E room teamId ev msg s5"
    using handleMessageEvent_to_attachments[of E s3 ev room cl teamId] assms
    by (simp add: s3_def s5_def)
  also have "\<dots> = message_subtypes E room teamId ev msg s5"
    using assms(3,9) by (simp add: message_attachments_none)
  finally have enter: "handleMessageEvent E ev teamId s3 =
    message_subtypes E room teamId ev msg s5" .
  have sub: "subtype msg = Some ''message_deleted''" "channel msg = channel (heap s ev)"
    "deleted_ts msg = deleted_ts (heap s ev)" "msg_text msg = msg_text (heap s ev)"
    using assms(2,9) by simp_all
  show ?thesis
  proof (intro conjI impI)
    assume "getEventBySlackId E (channel (heap s ev)) (deleted_ts (heap s ev)) = Inr (Some oe)"
      and "redactEvent E (roomId oe) (eventId oe) = Inr ()"
    then have "handleMessageEvent E ev teamId s3 =
      (Inr (), s6\<lparr>trace := trace s6 @ [RedactEvent (roomId oe) (eventId oe)]\<rparr>)"
      unfolding enter message_subtypes_deleted[OF sub(1)]
      by (simp add: sub bnd_def call_def s6_def)
    from handle_message_returns(1)[OF assms(1,6,7) this[unfolded s3_def]]
    show "trace (snd (handle E ev teamId s)) =
            trace s @
            [LogDebug (heap s ev) teamId, StartTimer ''remote_request_seconds'',
             Respond 200 (Some ''OK''), GetRoomBySlackChannelId (channel (heap s ev)),
             IncCounter ''received_messages'' ''remote'',
             GetEventBySlackId (channel (heap s ev)) (deleted_ts (heap s ev)),
             RedactEvent (roomId oe) (eventId oe),
             EndTimer success] @ caught_by_handle (endTimer E success)"
      by (simp add: s6_def s5_def s3_def)
  next
    assume none: "getEventBySlackId E (channel (heap s ev)) (deleted_ts (heap s ev)) = Inr None"
      and repl: "doChannelUserReplacements E msg (msg_text (heap s ev)) (Some cl) = Inr t"
      and sent: "onSlackMessage E room (msg\<lparr>msg_text := t\<rparr>) teamId None = Inr ()"
    have "handleMessageEvent E ev teamId s3 = message_forward E room teamId ev msg s6"
      unfolding enter message_subtypes_deleted[OF sub(1)] using none
      by (simp add: sub bnd_def call_def s6_def)
    also have "\<dots> = (Inr (), s6\<lparr>trace := trace s6 @
       [DoChannelUserReplacements msg (msg_text msg) (Some cl),
        OnSlackMessage room (msg\<lparr>msg_text := t\<rparr>) teamId None]\<rparr>)"
      using assms(5) sub repl sent
      by (intro message_forward_plain) (simp_all add: s6_def s5_def s3_def)
    finally have "handleMessageEvent E ev teamId s3 = (Inr (), s6\<lparr>trace := trace s6 @
       [DoChannelUserReplacements msg (msg_text msg) (Some cl),
        OnSlackMessage room (msg\<lparr>msg_text := t\<rparr>) teamId None]\<rparr>)" .
    from handle_message_returns(1)[OF assms(1,6,7) this[unfolded s3_def]]
    show "trace (snd (handle E ev teamId s)) =
            trace s @
            [LogDebug (heap s ev) teamId, StartTimer ''remote_request_seconds'',
             Respond 200 (Some ''OK''), GetRoomBySlackChannelId (channel (heap s ev)),
             IncCounter ''received_messages'' ''remote'',
             GetEventBySlackId (channel (heap s ev)) (deleted_ts (heap s ev)),
             DoChannelUserReplacements msg (msg_text (heap s ev)) (Some cl),
             OnSlackMessage room (msg\<lparr>msg_text := t\<rparr>) teamId None,
             EndTimer success] @ caught_by_handle (endTimer E success)"
      by (simp add: s6_def s5_def s3_def sub)
  qed
qed

theorem deleted_message_paths_witness:
  "trace (snd (handle bridged_env 0 ''T1'' (client_state deleted_event))) =
     [LogDebug deleted_event ''T1'', StartTimer ''remote_request_seconds'',
      Respond 200 (Some ''OK''), GetRoomBySlackChannelId (Some ''C1''),
      IncCounter ''received_messages'' ''remote'',
      GetEventBySlackId (Some ''C1'') (Some ''1700000000.000100''),
      RedactEvent ''!room:hs'' ''$event'', EndTimer success] \<and>
   trace (snd (handle one_room_env 0 ''T1'' (client_state deleted_event))) =
     [LogDebug deleted_event ''T1'', StartTimer ''remote_request_seconds'',
      Respond 200 (Some ''OK''), GetRoomBySlackChannelId (Some ''C1''),
      IncCounter ''received_messages'' ''remote'',
      GetEventBySlackId (Some ''C1'') (Some ''1700000000.000100''),
      DoChannelUserReplacements (assign_ids deleted_event (Some ''C1'') client_room ''T1'') None
        (Some (WebClient ''xoxp'')),
      OnSlackMessage 0 (assign_ids deleted_event (Some ''C1'') client_room ''T1'') ''T1'' None,
      EndTimer success]"
  using deleted_message_paths[of "client_state deleted_event" 0 bridged_env 0 "WebClient ''xoxp''"
      "assign_ids deleted_event (Some ''C1'') client_room ''T1''" "''T1''"
      "\<lparr>roomId = ''!room:hs'', eventId = ''$event''\<rparr>" None]
    deleted_message_paths[of "client_state deleted_event" 0 one_room_env 0 "WebClient ''xoxp''"
      "assign_ids deleted_event (Some ''C1'') client_room ''T1''" "''T1''"
      "\<lparr>roomId = ''!room:hs'', eventId = ''$event''\<rparr>" None]
  by (simp add: fixture_defs assign_ids_def caught_by_handle_def HTTP_OK_def js_or_def truthy_def)

subsection \<open>An edit made by a bot\<close>

text \<open>
  In a room without a client every message that is not an echo is forwarded as it
  is, before any subtype is looked at, also when the edit is the bridge bot's own.
\<close>

lemma own_edit_is_forwarded_without_client:
  "filter is_forward (trace (snd (handle one_room_env 0 ''T1'' (without_client (edit_state bot_edit))))) =
     [OnSlackMessage 0
        (assign_ids edit_event (Some ''C1'') (blank_room\<lparr>SlackBotId := Some ''B1''\<rparr>) ''T1'')
        ''T1'' None]"
  by (simp add: run_defs proc_defs fixture_defs)

text \<open>
  The first half of what the \<^verbatim>\<open>message_changed\<close> branch does with an edit made by a
  bot. A \<^verbatim>\<open>message_changed\<close> event with both the edited and the previous
  message, in a room with a client, that carries no attachments (or an empty array
  of them and a text that is not the empty string): if the edited message has a
  bot identifier and it is the one of the room, no call is made on the room,
  whatever the replacement of users and channels does with the previous text; when
  that replacement returns, the outcome is \<open>success\<close>.
\<close>

lemma own_edit_is_dropped:
  assumes "type (heap s ev) = ''message''"
    and "subtype (heap s ev) = Some ''message_changed''"
    and "message (heap s ev) = Some m" and "previous_message (heap s ev) = Some p"
    and "attachments (heap s ev) = None \<or>
         (attachments (heap s ev) = Some [] \<and> msg_text (heap s ev) \<noteq> Some [])"
    and "getRoomBySlackChannelId E (channel (heap s ev)) = Inr (Some room)"
    and "SlackClient (rooms s room) = Some cl"
    and "bot_id (heap s m) = Some b" and "SlackBotId (rooms s room) = Some b"
    and "startTimer E ''remote_request_seconds'' = Inr ()"
    and "response E HTTP_OK (Some ''OK'') = Inr ()"
    and "incCounter E ''received_messages'' ''remote'' = Inr ()"
    and "msg1 = (assign_ids (heap s ev) (channel (heap s ev)) (rooms s room) teamId)
                  \<lparr>user_id := user (heap s m), msg_text := msg_text (heap s m)\<rparr>"
  shows "filter is_forward (trace (snd (handle E ev teamId s))) = filter is_forward (trace s) \<and>
    (doChannelUserReplacements E msg1 (msg_text (heap s p)) (Some cl) = Inr t \<longrightarrow>
     trace (snd (handle E ev teamId s)) =
       trace s @
       [LogDebug (heap s ev) teamId, StartTimer ''remote_request_seconds'',
        Respond 200 (Some ''OK''), GetRoomBySlackChannelId (channel (heap s ev)),
        IncCounter ''received_messages'' ''remote'',
        DoChannelUserReplacements msg1 (msg_text (heap s p)) (Some cl),
        EndTimer success] @ caught_by_handle (endTimer E success))"
proof -
  define s3 where "s3 = s\<lparr>trace := trace s @ [LogDebug (heap s ev) teamId,
    StartTimer ''remote_request_seconds'', Respond 200 (Some ''OK'')]\<rparr>"
  define s5 where "s5 = s3\<lparr>trace := trace s3 @ [GetRoomBySlackChannelId (channel (heap s ev)),
          IncCounter ''received_messages'' ''remote'']\<rparr>"
  define msg where "msg = assign_ids (heap s ev) (channel (heap s ev)) (rooms s room) teamId"
  define called where "called = DoChannelUserReplacements msg1 (msg_text (heap s p)) (Some cl)"
  have "handleMessageEvent E ev teamId s3 = message_attachments E room teamId ev msg s5"
    using handleMessageEvent_to_attachments[of E s3 ev room cl teamId] assms
    by (simp add: s3_def s5_def msg_def)
  also have "\<dots> = message_subtypes E room teamId ev msg s5"
    using assms(5) by (simp add: message_attachments_none msg_def)
  also have "\<dots> =
    (case doChannelUserReplacements E msg1 (msg_text (heap s5 p)) (SlackClient (rooms s5 room)) of
       Inl ex \<Rightarrow>
         (Inl ex, s5\<lparr>trace := trace s5 @
            [DoChannelUserReplacements msg1 (msg_text (heap s5 p)) (SlackClient (rooms s5 room))]\<rparr>)
     | Inr t \<Rightarrow>
         (Inr (), s5\<lparr>trace := trace s5 @
            [DoChannelUserReplacements msg1 (msg_text (heap s5 p)) (SlackClient (rooms s5 room))],
            heap := (heap s5)(p := (heap s5 p)\<lparr>msg_text := t\<rparr>)\<rparr>))"
  proof (rule message_subtypes_own_edit)
    show "subtype msg = Some ''message_changed''" using assms(2) by (simp add: msg_def)
    show "message msg = Some m" using assms(3) by (simp add: msg_def)
    show "previous_message msg = Some p" using assms(4) by (simp add: msg_def)
    show "bot_id (heap s5 m) = Some b" using assms(8) by (simp add: s5_def s3_def)
    show "SlackBotId (rooms s5 room) = Some b" using assms(9) by (simp add: s5_def s3_def)
    show "msg1 = msg\<lparr>user_id := user (heap s5 m), msg_text := msg_text (heap s5 m)\<rparr>"
      using assms(13) by (simp add: msg_def s5_def s3_def)
  qed
  finally have run: "handleMessageEvent E ev teamId s3 =
    (case doChannelUserReplacements E msg1 (msg_text (heap s p)) (Some cl) of
       Inl ex \<Rightarrow> (Inl ex, s5\<lparr>trace := trace s5 @ [called]\<rparr>)
     | Inr t \<Rightarrow>
         (Inr (), s5\<lparr>trace := trace s5 @ [called],
            heap := (heap s)(p := (heap s p)\<lparr>msg_text := t\<rparr>)\<rparr>))"
    using assms(7) by (simp add: s5_def s3_def called_def split: sum.splits)
  have none: "filter is_forward (trace (snd (handle E ev teamId s))) = filter is_forward (trace s)"
    unfolding handle_message_forwards[OF assms(1,10,11)] run[unfolded s3_def]
    by (simp add: s5_def s3_def called_def split: sum.splits)
  have "trace (snd (handle E ev teamId s)) =
       trace s @
       [LogDebug (heap s ev) teamId, StartTimer ''remote_request_seconds'',
        Respond 200 (Some ''OK''), GetRoomBySlackChannelId (channel (heap s ev)),
        IncCounter ''received_messages'' ''remote'', called,
        EndTimer success] @ caught_by_handle (endTimer E success)"
    if "doChannelUserReplacements E msg1 (msg_text (heap s p)) (Some cl) = Inr t"
  proof -
    have "handleMessageEvent E ev teamId s3 =
      (Inr (), s5\<lparr>trace := trace s5 @ [called],
            heap := (heap s)(p := (heap s p)\<lparr>msg_text := t\<rparr>)\<rparr>)"
      using run that by simp
    from handle_message_returns(1)[OF assms(1,10,11) this[unfolded s3_def]]
    show ?thesis by (simp add: s5_def s3_def)
  qed
  with none show ?thesis by (simp add: called_def)
qed

lemma own_edit_is_dropped_example:
  "trace (snd (handle one_room_env 0 ''T1'' (edit_state bot_edit))) =
     [LogDebug edit_event ''T1'', StartTimer ''remote_request_seconds'',
      Respond 200 (Some ''OK''), GetRoomBySlackChannelId (Some ''C1''),
      IncCounter ''received_messages'' ''remote'',
      DoChannelUserReplacements
        ((assign_ids edit_event (Some ''C1'') client_room ''T1'')
           \<lparr>user_id := None, msg_text := Some ''edited by the bridge''\<rparr>)
        (Some ''Hello <@U2>'') (Some (WebClient ''xoxp'')),
      EndTimer success]"
  using own_edit_is_dropped[of "edit_state bot_edit" 0 1 2 one_room_env 0 "WebClient ''xoxp''"
      "''B1''"
      "(assign_ids edit_event (Some ''C1'') client_room ''T1'')
           \<lparr>user_id := None, msg_text := Some ''edited by the bridge''\<rparr>" "''T1''"
      "Some ''Hello <@U2>''"]
  by (simp add: fixture_defs assign_ids_def caught_by_handle_def HTTP_OK_def js_or_def truthy_def)

text \<open>
  C6. The claim has an edit by another bot attributed to that bot: the acting user
  identifier of the forwarded record is to be the bot identifier of the edited
  message. Lines 201 and 203 test \<^verbatim>\<open>msg.message.bot_id\<close>, but line 206 assigns
  \<^verbatim>\<open>msg.bot_id\<close>, the bot identifier of the event itself, which an edit event does not
  carry. Here the edited message is by the user \<^verbatim>\<open>U9\<close> of the bot \<^verbatim>\<open>B2\<close>, in a room
  with a client whose own bot is \<^verbatim>\<open>B1\<close>: the copy has the user identifier \<^verbatim>\<open>U9\<close>
  when the previous text is replaced, and is then forwarded with no user
  identifier at all, not with \<^verbatim>\<open>B2\<close>.
\<close>

theorem edit_by_other_bot_loses_its_author:
  "bot_id (heap (edit_state other_bot_edit) 1) = Some ''B2'' \<and>
   trace (snd (handle one_room_env 0 ''T1'' (edit_state other_bot_edit))) =
     [LogDebug edit_event ''T1'', StartTimer ''remote_request_seconds'',
      Respond 200 (Some ''OK''), GetRoomBySlackChannelId (Some ''C1''),
      IncCounter ''received_messages'' ''remote'',
      DoChannelUserReplacements
        ((assign_ids edit_event (Some ''C1'') client_room ''T1'')
           \<lparr>user_id := Some ''U9'', msg_text := Some ''edited by a bot''\<rparr>)
        (Some ''Hello <@U2>'') (Some (WebClient ''xoxp'')),
      DoChannelUserReplacements
        ((assign_ids edit_event (Some ''C1'') client_room ''T1'')
           \<lparr>user_id := None, msg_text := Some ''edited by a bot''\<rparr>)
        (Some ''edited by a bot'') (Some (WebClient ''xoxp'')),
      OnSlackMessage 0
        ((assign_ids edit_event (Some ''C1'') client_room ''T1'')
           \<lparr>user_id := None, msg_text := Some ''edited by a bot''\<rparr>)
        ''T1'' None,
      EndTimer success]"
  by (simp add: run_defs proc_defs fixture_defs)

section \<open>What is written to the event\<close>

lemma stepping_text_frame: "stepping (text_frame po)"
  unfolding stepping_def text_frame_def
proof (intro conjI allI impI)
  fix s :: state and a
  show "heap s a = heap s a \<or> (po = Some a \<and> (\<exists>t. heap s a = (heap s a)\<lparr>msg_text := t\<rparr>))"
    by simp
next
  fix s t u :: state and a
  assume st: "\<forall>a. heap t a = heap s a \<or> (po = Some a \<and> (\<exists>x. heap t a = (heap s a)\<lparr>msg_text := x\<rparr>))"
    and tu: "\<forall>a. heap u a = heap t a \<or> (po = Some a \<and> (\<exists>x. heap u a = (heap t a)\<lparr>msg_text := x\<rparr>))"
  show "heap u a = heap s a \<or> (po = Some a \<and> (\<exists>x. heap u a = (heap s a)\<lparr>msg_text := x\<rparr>))"
  proof (cases "heap t a = heap s a")
    case True
    then show ?thesis using spec[OF tu, of a] by auto
  next
    case False
    then obtain x where x: "po = Some a" "heap t a = (heap s a)\<lparr>msg_text := x\<rparr>"
      using spec[OF st, of a] by blast
    show ?thesis
    proof (cases "heap u a = heap t a")
      case True
      then show ?thesis using x by auto
    next
      case False
      then obtain y where "heap u a = (heap t a)\<lparr>msg_text := y\<rparr>"
        using spec[OF tu, of a] by blast
      then have "heap u a = (heap s a)\<lparr>msg_text := y\<rparr>" using x(2) by simp
      then show ?thesis using x(1) by blast
    qed
  qed
qed

lemma records_text_frame: "records (text_frame po) a"
  by (simp add: records_def text_frame_def)

lemma rerooms_text_frame: "rerooms (text_frame po)"
  by (simp add: rerooms_def text_frame_def)

lemma retexts_text_frame: "retexts (text_frame (Some a)) a"
  by (auto simp: retexts_def text_frame_def)

lemma handle_classify_text_frame:
  "text_frame (edited_snapshot (heap s ev)) s (snd (handle_classify E ev teamId s))"
proof (rule handle_classify_at[where R="text_frame (edited_snapshot (heap s ev))"])
  show "stepping (text_frame (edited_snapshot (heap s ev)))" by (rule stepping_text_frame)
  show "records (text_frame (edited_snapshot (heap s ev))) a" if "\<not> is_respond a" for a
    by (rule records_text_frame)
  show "rerooms (text_frame (edited_snapshot (heap s ev)))" by (rule rerooms_text_frame)
  show "retexts (text_frame (edited_snapshot (heap s ev))) a"
    if "type (heap s ev) = ''message''" "subtype (heap s ev) = Some ''message_changed''"
      "message (heap s ev) \<noteq> None" "previous_message (heap s ev) = Some a" for a
    using that by (simp add: edited_snapshot_def retexts_text_frame)
qed

lemma handle_heap:
  "heap (snd (handle E ev teamId s)) = heap s \<or>
   heap (snd (handle E ev teamId s)) =
     heap (snd (handle_classify E ev teamId
       (s\<lparr>trace := trace s @ [LogDebug (heap s ev) teamId,
          StartTimer ''remote_request_seconds'', Respond 200 (Some ''OK'')]\<rparr>)))"
  by (simp add: handle_def handle_try_def proc_defs HTTP_OK_def split: prod.splits sum.splits)

lemma handle_text_frame:
  "text_frame (edited_snapshot (heap s ev)) s (snd (handle E ev teamId s))"
proof -
  define s3 where "s3 = s\<lparr>trace := trace s @ [LogDebug (heap s ev) teamId,
          StartTimer ''remote_request_seconds'', Respond 200 (Some ''OK'')]\<rparr>"
  have "text_frame (edited_snapshot (heap s3 ev)) s3 (snd (handle_classify E ev teamId s3))"
    by (rule handle_classify_text_frame)
  then have "text_frame (edited_snapshot (heap s ev)) s (snd (handle_classify E ev teamId s3))"
    by (simp add: text_frame_def s3_def)
  then show ?thesis
    using handle_heap[of E ev teamId s] unfolding s3_def[symmetric]
    by (auto simp: text_frame_def)
qed

text \<open>
  C9, as stated, fails: \<open>msg\<close> is a shallow copy, so \<^verbatim>\<open>msg.previous_message\<close> is the
  very object that the event holds, and line 196 overwrites its text.
\<close>

theorem snapshot_text_is_overwritten:
  "msg_text (heap (edit_state user_edit) 2) = Some ''Hello <@U2>'' \<and>
   msg_text (heap (snd (handle resolving_env 0 ''T1'' (edit_state user_edit))) 2) = Some ''Hello Bob''"
  by (simp add: run_defs proc_defs fixture_defs)

text \<open>
  C9, amended. After \<^verbatim>\<open>handle\<close>, every stored message object (the event itself and
  the objects it refers to) is as it was before, with one exception: for a \<^verbatim>\<open>message\<close>
  event of subtype \<^verbatim>\<open>message_changed\<close> that carries the edited message, the object
  that is its previous message may have a new text; its other fields are as before.
\<close>

theorem only_the_snapshot_text_is_rewritten:
  "heap (snd (handle E ev teamId s)) a = heap s a \<or>
   (type (heap s ev) = ''message'' \<and> subtype (heap s ev) = Some ''message_changed'' \<and>
    message (heap s ev) \<noteq> None \<and> previous_message (heap s ev) = Some a \<and>
    (\<exists>t. heap (snd (handle E ev teamId s)) a = (heap s a)\<lparr>msg_text := t\<rparr>))"
proof (cases "heap (snd (handle E ev teamId s)) a = heap s a")
  case True
  then show ?thesis by simp
next
  case False
  then have "edited_snapshot (heap s ev) = Some a \<and>
    (\<exists>t. heap (snd (handle E ev teamId s)) a = (heap s a)\<lparr>msg_text := t\<rparr>)"
    using handle_text_frame[of s ev E teamId] unfolding text_frame_def by blast
  then show ?thesis
    by (auto simp: edited_snapshot_def split: if_splits)
qed

theorem only_the_snapshot_text_is_rewritten_witness:
  "heap (snd (handle resolving_env 0 ''T1'' (edit_state user_edit))) 0 = edit_event \<and>
   heap (snd (handle resolving_env 0 ''T1'' (edit_state user_edit))) 1 = user_edit"
  using only_the_snapshot_text_is_rewritten[of resolving_env 0 "''T1''" "edit_state user_edit" 0]
    only_the_snapshot_text_is_rewritten[of resolving_env 0 "''T1''" "edit_state user_edit" 1]
  by (simp add: fixture_defs)

end
